theory Spec2Isabelle
  imports Complex_Main
begin

section \<open>Go strings\<close>

text \<open>
  A Go string holding valid UTF-8 is modelled as the list of its code points (runes).
  \<open>strings.Index\<close>, \<open>HasPrefix\<close> and \<open>Contains\<close> work on bytes in Go; on valid UTF-8
  with valid UTF-8 needles they find the same occurrences, and a byte offset returned by
  \<open>Index\<close> corresponds to the rune offset used here. \<open>len([]rune(s))\<close> is \<open>length\<close>.
  ASCII literals are written \<open>S ''...''\<close>; other literals are written as code points.
\<close>

type_synonym rune = nat
type_synonym gostring = "rune list"

definition S :: "string \<Rightarrow> gostring" where
  "S cs = map of_char cs"

text \<open>\<open>unicode.IsSpace\<close>: the Latin-1 spaces and the code points with property White_Space.\<close>

definition isSpace :: "rune \<Rightarrow> bool" where
  "isSpace r \<longleftrightarrow>
     r = 0x09 \<or> r = 0x0A \<or> r = 0x0B \<or> r = 0x0C \<or> r = 0x0D \<or> r = 0x20 \<or>
     r = 0x85 \<or> r = 0xA0 \<or> r = 0x1680 \<or> (0x2000 \<le> r \<and> r \<le> 0x200A) \<or>
     r = 0x2028 \<or> r = 0x2029 \<or> r = 0x202F \<or> r = 0x205F \<or> r = 0x3000"

definition TrimLeftFunc :: "(rune \<Rightarrow> bool) \<Rightarrow> gostring \<Rightarrow> gostring" where
  "TrimLeftFunc f s = dropWhile f s"

definition TrimRightFunc :: "(rune \<Rightarrow> bool) \<Rightarrow> gostring \<Rightarrow> gostring" where
  "TrimRightFunc f s = rev (dropWhile f (rev s))"

definition TrimSpace :: "gostring \<Rightarrow> gostring" where
  "TrimSpace s = TrimRightFunc isSpace (TrimLeftFunc isSpace s)"

definition TrimRight :: "gostring \<Rightarrow> gostring \<Rightarrow> gostring" where
  "TrimRight s cutset = TrimRightFunc (\<lambda>r. r \<in> set cutset) s"

definition Trim :: "gostring \<Rightarrow> gostring \<Rightarrow> gostring" where
  "Trim s cutset =
     TrimRightFunc (\<lambda>r. r \<in> set cutset) (TrimLeftFunc (\<lambda>r. r \<in> set cutset) s)"

definition HasPrefix :: "gostring \<Rightarrow> gostring \<Rightarrow> bool" where
  "HasPrefix s p \<longleftrightarrow> take (length p) s = p"

definition HasSuffix :: "gostring \<Rightarrow> gostring \<Rightarrow> bool" where
  "HasSuffix s p \<longleftrightarrow> length p \<le> length s \<and> drop (length s - length p) s = p"

definition TrimPrefix :: "gostring \<Rightarrow> gostring \<Rightarrow> gostring" where
  "TrimPrefix s p = (if HasPrefix s p then drop (length p) s else s)"

definition TrimSuffix :: "gostring \<Rightarrow> gostring \<Rightarrow> gostring" where
  "TrimSuffix s p = (if HasSuffix s p then take (length s - length p) s else s)"

text \<open>\<open>strings.Index\<close>: the offset of the first occurrence, \<open>None\<close> for Go's \<open>-1\<close>.\<close>

fun Index :: "gostring \<Rightarrow> gostring \<Rightarrow> nat option" where
  "Index [] sub = (if sub = [] then Some 0 else None)"
| "Index (c # cs) sub =
     (if take (length sub) (c # cs) = sub then Some 0 else map_option Suc (Index cs sub))"

definition Contains :: "gostring \<Rightarrow> gostring \<Rightarrow> bool" where
  "Contains s sub \<longleftrightarrow> Index s sub \<noteq> None"

text \<open>\<open>strings.Split(s, sep)\<close> for a separator of one rune (the code only splits at newlines).\<close>

fun Split :: "gostring \<Rightarrow> rune \<Rightarrow> gostring list" where
  "Split [] sep = [[]]"
| "Split (c # cs) sep =
     (if c = sep then [] # Split cs sep
      else (case Split cs sep of [] \<Rightarrow> [[c]] | l # ls \<Rightarrow> (c # l) # ls))"

fun Join :: "gostring list \<Rightarrow> gostring \<Rightarrow> gostring" where
  "Join [] sep = []"
| "Join [x] sep = x"
| "Join (x # y # ys) sep = x @ sep @ Join (y # ys) sep"

text \<open>\<open>strings.Fields\<close>: the maximal runs of non-space runes.\<close>

fun fieldsFrom :: "gostring \<Rightarrow> gostring \<Rightarrow> gostring list" where
  "fieldsFrom cur [] = (if cur = [] then [] else [cur])"
| "fieldsFrom cur (c # cs) =
     (if isSpace c then (if cur = [] then fieldsFrom [] cs else cur # fieldsFrom [] cs)
      else fieldsFrom (cur @ [c]) cs)"

definition Fields :: "gostring \<Rightarrow> gostring list" where
  "Fields s = fieldsFrom [] s"

text \<open>
  \<open>strings.ToLower\<close> maps every rune through the Unicode case tables, which are not part
  of the repository. The mapping below covers ASCII, Latin-1, Greek, Cyrillic and the
  fullwidth Latin letters; no theorem below depends on the mapping of any other rune.
\<close>

definition toLowerRune :: "rune \<Rightarrow> rune" where
  "toLowerRune r =
     (if 0x41 \<le> r \<and> r \<le> 0x5A then r + 32
      else if 0xC0 \<le> r \<and> r \<le> 0xDE \<and> r \<noteq> 0xD7 then r + 32
      else if 0x391 \<le> r \<and> r \<le> 0x3A9 \<and> r \<noteq> 0x3A2 then r + 32
      else if 0x400 \<le> r \<and> r \<le> 0x40F then r + 80
      else if 0x410 \<le> r \<and> r \<le> 0x42F then r + 32
      else if 0xFF21 \<le> r \<and> r \<le> 0xFF3A then r + 32
      else r)"

definition ToLower :: "gostring \<Rightarrow> gostring" where
  "ToLower s = map toLowerRune s"

text \<open>\<open>strings.ReplaceAll(s, old, new)\<close> where \<open>old\<close> and \<open>new\<close> are one rune each.\<close>

definition ReplaceAll :: "gostring \<Rightarrow> rune \<Rightarrow> rune \<Rightarrow> gostring" where
  "ReplaceAll s old new = map (\<lambda>r. if r = old then new else r) s"

section \<open>Intent parsing and the implicit-fact heuristic\<close>

text \<open>The literals of \<open>parseAutoFactsIntent\<close>, in source order.\<close>

definition rememberPrefixes :: "gostring list" where
  "rememberPrefixes =
     [[0x8BB0, 0x4F4F, 0xFF1A], [0x8BB0, 0x4F4F, 0x3A],
      [0x8BF7, 0x8BB0, 0x4F4F, 0xFF1A], [0x8BF7, 0x8BB0, 0x4F4F, 0x3A],
      [0x5E2E, 0x6211, 0x8BB0, 0x4F4F, 0xFF1A], [0x5E2E, 0x6211, 0x8BB0, 0x4F4F, 0x3A]]"

definition forgetPrefixes :: "gostring list" where
  "forgetPrefixes =
     [[0x5FD8, 0x8BB0, 0xFF1A], [0x5FD8, 0x8BB0, 0x3A],
      [0x8BF7, 0x5FD8, 0x8BB0, 0xFF1A], [0x8BF7, 0x5FD8, 0x8BB0, 0x3A],
      [0x5E2E, 0x6211, 0x5FD8, 0x8BB0, 0xFF1A], [0x5E2E, 0x6211, 0x5FD8, 0x8BB0, 0x3A]]"

text \<open>
  The loop \<open>for _, p := range prefixes { if HasPrefix(t, p) { ... return } }\<close>: the first
  prefix of the list that \<open>t\<close> begins with.
\<close>

fun firstPrefix :: "gostring list \<Rightarrow> gostring \<Rightarrow> gostring option" where
  "firstPrefix [] t = None"
| "firstPrefix (p # ps) t = (if HasPrefix t p then Some p else firstPrefix ps t)"

datatype intent = Remember | Forget

definition parseAutoFactsIntent :: "gostring \<Rightarrow> (intent \<times> gostring) option" where
  "parseAutoFactsIntent input =
     (let t = TrimSpace input in
      if t = [] then None
      else case firstPrefix rememberPrefixes t of
             Some p \<Rightarrow> Some (Remember, TrimSpace (TrimPrefix t p))
           | None \<Rightarrow>
               (case firstPrefix forgetPrefixes t of
                  Some p \<Rightarrow> Some (Forget, TrimSpace (TrimPrefix t p))
                | None \<Rightarrow> None))"

definition looksLikeSelfStatement :: "gostring \<Rightarrow> bool" where
  "looksLikeSelfStatement text0 =
     (let text = TrimSpace text0 in
      if text = [] then False
      else if \<not> HasPrefix text [0x6211] then False
      else if HasSuffix text [0x5417] \<or> HasSuffix text (S ''?'') \<or> HasSuffix text [0xFF1F]
        then False
      else if Contains text [0x5E2E, 0x6211] \<or> Contains text [0x8BF7, 0x4F60] then False
      else True)"

definition hasAttributeMarker :: "gostring \<Rightarrow> bool" where
  "hasAttributeMarker text \<longleftrightarrow>
     Contains text [0x662F] \<or> Contains text [0x53EB] \<or> Contains text [0x751F, 0x65E5] \<or>
     Contains text [0x6700, 0x559C, 0x6B22] \<or> Contains text [0x559C, 0x6B22]"

text \<open>
  \<open>maybeAutoProposePendingFromUserInput\<close> with an open database. The result is the fact
  text handed to \<open>ProposePendingRememberFact\<close> (source type \<open>realtime_implicit\<close>), or
  \<open>None\<close> when the function returns before that call.
\<close>

definition maybeAutoProposePendingFromUserInput :: "gostring \<Rightarrow> gostring option" where
  "maybeAutoProposePendingFromUserInput input =
     (let text = TrimSpace input in
      if text = [] then None
      else if HasPrefix text (S ''/'') then None
      else if parseAutoFactsIntent text \<noteq> None then None
      else if \<not> looksLikeSelfStatement text then None
      else if \<not> hasAttributeMarker text then None
      else if length text < 4 \<or> length text > 140 then None
      else Some (TrimSpace (TrimRight text [0x3002, 0x2E, 0x21, 0xFF01])))"

section \<open>Assistant text sanitisation\<close>













section \<open>Daily summary: chunking the raw log\<close>

text \<open>
  The raw day log is a byte slice. \<open>strings.Split\<close> at the newline byte and
  \<open>strings.TrimRight\<close> with the ASCII cutset \<open>"\r\n"\<close> work on bytes, so \<open>Split\<close> and
  \<open>TrimRight\<close> above are used on the list of bytes; \<open>len\<close> counts bytes.
\<close>

type_synonym bytes = "nat list"

text \<open>
  \<open>strings.TrimSpace(line) == ""\<close> on bytes: the line is a sequence of UTF-8 encodings
  of \<open>unicode.IsSpace\<close> runes (U+0085 and U+00A0 are \<open>C2 85\<close> and \<open>C2 A0\<close>, U+1680 is
  \<open>E1 9A 80\<close>, U+2000..U+200A, U+2028, U+2029, U+202F are \<open>E2 80 xx\<close>, U+205F is
  \<open>E2 81 9F\<close>, U+3000 is \<open>E3 80 80\<close>).
\<close>

fun isBlankLine :: "bytes \<Rightarrow> bool" where
  "isBlankLine [] = True"
| "isBlankLine (b # bs) =
     (if b = 0x09 \<or> b = 0x0A \<or> b = 0x0B \<or> b = 0x0C \<or> b = 0x0D \<or> b = 0x20
        then isBlankLine bs
      else if b = 0xC2 then
        (case bs of b1 # r \<Rightarrow> (b1 = 0x85 \<or> b1 = 0xA0) \<and> isBlankLine r | _ \<Rightarrow> False)
      else if b = 0xE1 then
        (case bs of b1 # b2 # r \<Rightarrow> b1 = 0x9A \<and> b2 = 0x80 \<and> isBlankLine r | _ \<Rightarrow> False)
      else if b = 0xE2 then
        (case bs of
           b1 # b2 # r \<Rightarrow>
             ((b1 = 0x80 \<and> ((0x80 \<le> b2 \<and> b2 \<le> 0x8A) \<or> b2 = 0xA8 \<or> b2 = 0xA9 \<or> b2 = 0xAF))
              \<or> (b1 = 0x81 \<and> b2 = 0x9F)) \<and> isBlankLine r
         | _ \<Rightarrow> False)
      else if b = 0xE3 then
        (case bs of b1 # b2 # r \<Rightarrow> b1 = 0x80 \<and> b2 = 0x80 \<and> isBlankLine r | _ \<Rightarrow> False)
      else False)"

text \<open>
  The state of the loop of \<open>splitJSONLIntoChunks\<close> is the pair of \<open>chunks\<close> and the
  builder \<open>b\<close>; \<open>flush\<close> is the closure of that name.
\<close>

definition flush :: "bytes list \<times> bytes \<Rightarrow> bytes list \<times> bytes" where
  "flush st = (if length (snd st) > 0 then (fst st @ [snd st], []) else st)"

fun chunkLoop :: "int \<Rightarrow> bytes list \<Rightarrow> bytes list \<times> bytes \<Rightarrow> bytes list \<times> bytes" where
  "chunkLoop maxBytes [] st = st"
| "chunkLoop maxBytes (line0 # rest) st =
     (let line = TrimRight line0 [0x0D, 0x0A] in
      if isBlankLine line then chunkLoop maxBytes rest st
      else
        let nextLen = int (length (snd st) + length line + 1);
            st1 = (if length (snd st) > 0 \<and> nextLen > maxBytes then flush st else st);
            st2 = (fst st1, snd st1 @ line @ [0x0A]);
            st3 = (if int (length (snd st2)) > maxBytes then flush st2 else st2)
        in chunkLoop maxBytes rest st3)"

definition splitJSONLIntoChunks :: "bytes \<Rightarrow> int \<Rightarrow> bytes list" where
  "splitJSONLIntoChunks raw maxBytes =
     (let lines = Split raw 0x0A;
          chunks = fst (flush (chunkLoop maxBytes lines ([], [])))
      in if chunks = [] then [[]] else chunks)"

text \<open>
  The model calls of \<open>ensureDaily\<close>. A prompt is the template \<open>daily.txt\<close> with the date
  and a transcript filled in, or the merge prompt over the partial summaries; it is kept
  as the data it is rendered from. The chat service is a function from the prompt to its
  answer (\<open>None\<close> when \<open>callLLMNonStream\<close> returns an error), \<open>valid\<close> is \<open>json.Valid\<close>.
\<close>

datatype prompt =
    DailyPrompt gostring bytes
  | DailyPartPrompt gostring nat nat bytes
  | DailyMergePrompt gostring "gostring list"

datatype daily_error = LLMFailed | InvalidJSON | ReadFailed

text \<open>The loop \<open>for i, c := range chunks\<close>; the second component lists the prompts sent.\<close>

fun summarizeParts ::
  "(prompt \<Rightarrow> gostring option) \<Rightarrow> (gostring \<Rightarrow> bool) \<Rightarrow> gostring \<Rightarrow> nat \<Rightarrow> nat \<Rightarrow> bytes list
     \<Rightarrow> (daily_error + gostring list) \<times> prompt list" where
  "summarizeParts llm valid date n i [] = (Inr [], [])"
| "summarizeParts llm valid date n i (c # cs) =
     (let p = DailyPartPrompt date (i + 1) n c in
      case llm p of
        None \<Rightarrow> (Inl LLMFailed, [p])
      | Some out \<Rightarrow>
          if \<not> valid out then (Inl InvalidJSON, [p])
          else (case summarizeParts llm valid date n (i + 1) cs of
                  (Inl e, sent) \<Rightarrow> (Inl e, p # sent)
                | (Inr outs, sent) \<Rightarrow> (Inr (out # outs), p # sent)))"

text \<open>
  \<open>ensureDaily\<close> from the split of the raw log to the value of \<open>dailyJSON\<close>: one call
  when there is one chunk, else one call for each chunk and the merge call.
\<close>

definition dailyJSONFromRaw ::
  "(prompt \<Rightarrow> gostring option) \<Rightarrow> (gostring \<Rightarrow> bool) \<Rightarrow> gostring \<Rightarrow> bytes \<Rightarrow> int
     \<Rightarrow> (daily_error + gostring) \<times> prompt list" where
  "dailyJSONFromRaw llm valid date rawAll maxDailyJSONLBytes =
     (let chunks = splitJSONLIntoChunks rawAll maxDailyJSONLBytes in
      if length chunks = 1 then
        (let p = DailyPrompt date (hd chunks) in
         case llm p of
           None \<Rightarrow> (Inl LLMFailed, [p])
         | Some out \<Rightarrow> if \<not> valid out then (Inl InvalidJSON, [p]) else (Inr out, [p]))
      else
        (case summarizeParts llm valid date (length chunks) 0 chunks of
           (Inl e, sent) \<Rightarrow> (Inl e, sent)
         | (Inr partials, sent) \<Rightarrow>
             (let mp = DailyMergePrompt date partials in
              case llm mp of
                None \<Rightarrow> (Inl LLMFailed, sent @ [mp])
              | Some merged \<Rightarrow>
                  if \<not> valid merged then (Inl InvalidJSON, sent @ [mp])
                  else (Inr merged, sent @ [mp]))))"


definition encLines :: "bytes list \<Rightarrow> bytes" where
  "encLines g = concat (map (\<lambda>l. l @ [0x0A]) g)"



text \<open>
  Consecutive groups are packed: a group together with the first line of the next group
  (and its newline) is above the budget, so that line could not have joined the group.
\<close>

fun packed :: "int \<Rightarrow> bytes list list \<Rightarrow> bool" where
  "packed m (g # h # gs) \<longleftrightarrow>
     int (length (encLines g) + length (hd h) + 1) > m \<and> packed m (h # gs)"
| "packed m gs \<longleftrightarrow> True"

section \<open>Floating-point values\<close>

text \<open>
  A \<open>float32\<close> or \<open>float64\<close> is a finite number, an infinity or NaN. Arithmetic on
  finite values is exact here (no rounding, no overflow, no negative zero); the special
  values follow IEEE 754, and every comparison with NaN is false.
\<close>

datatype float64 = Fin real | PInf | NInf | NaN

definition isNaN :: "float64 \<Rightarrow> bool" where
  "isNaN x \<longleftrightarrow> x = NaN"

text \<open>\<open>math.IsInf(x, 0)\<close>.\<close>

definition isInf :: "float64 \<Rightarrow> bool" where
  "isInf x \<longleftrightarrow> x = PInf \<or> x = NInf"

fun fadd :: "float64 \<Rightarrow> float64 \<Rightarrow> float64" where
  "fadd (Fin a) (Fin b) = Fin (a + b)"
| "fadd NaN _ = NaN"
| "fadd _ NaN = NaN"
| "fadd PInf NInf = NaN"
| "fadd NInf PInf = NaN"
| "fadd PInf _ = PInf"
| "fadd _ PInf = PInf"
| "fadd NInf _ = NInf"
| "fadd _ NInf = NInf"

fun fneg :: "float64 \<Rightarrow> float64" where
  "fneg (Fin a) = Fin (- a)"
| "fneg PInf = NInf"
| "fneg NInf = PInf"
| "fneg NaN = NaN"

definition fsub :: "float64 \<Rightarrow> float64 \<Rightarrow> float64" where
  "fsub x y = fadd x (fneg y)"

text \<open>The sign of a product or quotient with an infinite operand.\<close>

definition signedInf :: "bool \<Rightarrow> float64" where
  "signedInf positive = (if positive then PInf else NInf)"

fun fmul :: "float64 \<Rightarrow> float64 \<Rightarrow> float64" where
  "fmul (Fin a) (Fin b) = Fin (a * b)"
| "fmul NaN _ = NaN"
| "fmul _ NaN = NaN"
| "fmul (Fin a) PInf = (if a = 0 then NaN else signedInf (a > 0))"
| "fmul (Fin a) NInf = (if a = 0 then NaN else signedInf (a < 0))"
| "fmul PInf (Fin b) = (if b = 0 then NaN else signedInf (b > 0))"
| "fmul NInf (Fin b) = (if b = 0 then NaN else signedInf (b < 0))"
| "fmul PInf PInf = PInf"
| "fmul NInf NInf = PInf"
| "fmul PInf NInf = NInf"
| "fmul NInf PInf = NInf"

fun fdiv :: "float64 \<Rightarrow> float64 \<Rightarrow> float64" where
  "fdiv (Fin a) (Fin b) =
     (if b \<noteq> 0 then Fin (a / b) else if a = 0 then NaN else signedInf (a > 0))"
| "fdiv NaN _ = NaN"
| "fdiv _ NaN = NaN"
| "fdiv (Fin a) PInf = Fin 0"
| "fdiv (Fin a) NInf = Fin 0"
| "fdiv PInf (Fin b) = signedInf (b \<ge> 0)"
| "fdiv NInf (Fin b) = signedInf (b < 0)"
| "fdiv PInf PInf = NaN"
| "fdiv PInf NInf = NaN"
| "fdiv NInf PInf = NaN"
| "fdiv NInf NInf = NaN"

fun fsqrt :: "float64 \<Rightarrow> float64" where
  "fsqrt (Fin a) = (if a < 0 then NaN else Fin (sqrt a))"
| "fsqrt PInf = PInf"
| "fsqrt NInf = NaN"
| "fsqrt NaN = NaN"

text \<open>\<open>x < y\<close>, \<open>x == y\<close> and the comparisons derived from them.\<close>

fun flt :: "float64 \<Rightarrow> float64 \<Rightarrow> bool" where
  "flt (Fin a) (Fin b) = (a < b)"
| "flt NaN _ = False"
| "flt _ NaN = False"
| "flt _ NInf = False"
| "flt PInf _ = False"
| "flt NInf _ = True"
| "flt _ PInf = True"

definition feq :: "float64 \<Rightarrow> float64 \<Rightarrow> bool" where
  "feq x y \<longleftrightarrow> x \<noteq> NaN \<and> x = y"

definition fgt :: "float64 \<Rightarrow> float64 \<Rightarrow> bool" where
  "fgt x y = flt y x"

definition fle :: "float64 \<Rightarrow> float64 \<Rightarrow> bool" where
  "fle x y \<longleftrightarrow> flt x y \<or> feq x y"

definition fge :: "float64 \<Rightarrow> float64 \<Rightarrow> bool" where
  "fge x y = fle y x"

text \<open>\<open>l2norm\<close>: the loop \<open>s += float64(x * x)\<close>, then the square root.\<close>

definition sumSquares :: "float64 list \<Rightarrow> float64" where
  "sumSquares v = fold (\<lambda>x s. fadd s (fmul x x)) v (Fin 0)"

definition l2norm :: "float64 list \<Rightarrow> float64" where
  "l2norm v = fsqrt (sumSquares v)"


section \<open>Fact keys and fact triples\<close>

definition normalizeFactKey :: "gostring \<Rightarrow> gostring" where
  "normalizeFactKey s = ToLower (Join (Fields (TrimSpace s)) (S '' ''))"

text \<open>\<open>extractFactSubject\<close>: the text before the first U+5C31 U+662F, else before the first U+662F.\<close>

definition extractFactSubject :: "gostring \<Rightarrow> gostring" where
  "extractFactSubject fact0 =
     (let fact = TrimSpace fact0 in
      case Index fact [0x5C31, 0x662F] of
        Some (Suc i) \<Rightarrow> TrimSpace (take (Suc i) fact)
      | _ \<Rightarrow>
          (case Index fact [0x662F] of
             Some (Suc i) \<Rightarrow> TrimSpace (take (Suc i) fact)
           | _ \<Rightarrow> []))"

definition deriveFactKeyFromSubject :: "gostring \<Rightarrow> gostring" where
  "deriveFactKeyFromSubject content =
     (let subject = extractFactSubject content in
      if subject = [] then normalizeFactKey content
      else S ''subject:'' @ normalizeFactKey subject)"

record FactTriple =
  Subject :: gostring
  Relation :: gostring
  Object :: gostring
  SubjectKey :: gostring
  RelationKey :: gostring
  ObjectNorm :: gostring
  SingleValued :: bool

definition emptyTriple :: FactTriple where
  "emptyTriple = \<lparr>Subject = [], Relation = [], Object = [], SubjectKey = [],
     RelationKey = [], ObjectNorm = [], SingleValued = False\<rparr>"

definition SlotKey :: "FactTriple \<Rightarrow> gostring" where
  "SlotKey t =
     (if \<not> SingleValued t then []
      else if SubjectKey t = [] \<or> RelationKey t = [] then []
      else S ''slot:'' @ SubjectKey t @ S ''|'' @ RelationKey t)"

definition canonicalRelationKey :: "gostring \<Rightarrow> gostring \<times> bool" where
  "canonicalRelationKey relation =
     (let r = ReplaceAll (ToLower (TrimSpace relation)) 0xFF1A 0x3A in
      if Contains r [0x540D, 0x5B57] \<or> Contains r [0x59D3, 0x540D] \<or> Contains r [0x771F, 0x540D] \<or> Contains r [0x6635, 0x79F0]
           \<or> Contains r [0x82F1, 0x6587, 0x540D] then (S ''name'', True)
      else if Contains r (S ''id'') \<or> Contains r [0x8D26, 0x53F7] \<or> Contains r [0x7528, 0x6237, 0x540D]
        then (S ''id'', True)
      else if Contains r [0x540D, 0x53EB] \<or> Contains r [0x53EB, 0x505A]
           \<or> (Contains r [0x53EB] \<and> \<not> Contains r [0x559C, 0x6B22]) then (S ''name'', True)
      else if Contains r [0x90AE, 0x7BB1] then (S ''email'', True)
      else if Contains r [0x624B, 0x673A, 0x53F7] \<or> Contains r [0x624B, 0x673A] \<or> Contains r [0x7535, 0x8BDD]
        then (S ''phone'', True)
      else if Contains r [0x751F, 0x65E5] \<or> Contains r [0x51FA, 0x751F] then (S ''birthday'', True)
      else if Contains r [0x5E74, 0x9F84] then (S ''age'', True)
      else if Contains r [0x4F4F, 0x5740] \<or> Contains r [0x5730, 0x5740] \<or> Contains r [0x4F4F, 0x5728]
           \<or> Contains r [0x6240, 0x5728, 0x5730] then (S ''location'', True)
      else if Contains r [0x516C, 0x53F8] \<or> Contains r [0x5DE5, 0x4F5C] \<or> Contains r [0x4EFB, 0x804C] \<or> Contains r [0x804C, 0x4F4D]
           \<or> Contains r [0x804C, 0x52A1] then (S ''job'', True)
      else if Contains r (S ''name'') then (S ''name'', True)
      else if Contains r (S ''email'') \<or> Contains r (S ''e-mail'') \<or> Contains r (S ''mail'')
        then (S ''email'', True)
      else if Contains r (S ''phone'') \<or> Contains r (S ''tel'') then (S ''phone'', True)
      else if Contains r (S ''birthday'') \<or> Contains r (S ''born'') then (S ''birthday'', True)
      else if Contains r (S ''age'') then (S ''age'', True)
      else if Contains r (S ''live'') \<or> Contains r (S ''location'') \<or> Contains r (S ''address'')
        then (S ''location'', True)
      else if Contains r (S ''work'') \<or> Contains r (S ''company'') \<or> Contains r (S ''job'')
           \<or> Contains r (S ''title'') then (S ''job'', True)
      else if r = [0x662F] \<or> r = [0x5C31, 0x662F] \<or> r = [0x4E3A] \<or> r = S ''is'' \<or> r = S ''are''
        then (S ''identity'', True)
      else ([], False))"

definition finalizeTriple :: "gostring \<Rightarrow> gostring \<Rightarrow> gostring \<Rightarrow> FactTriple" where
  "finalizeTriple subject0 relation0 object0 =
     (let subject = TrimSpace subject0;
          relation = TrimSpace relation0;
          object = TrimSpace object0
      in if subject = [] \<or> relation = [] \<or> object = [] then emptyTriple
         else
           let subject1 = (if HasPrefix subject [0x6211, 0x7684] then [0x6211] else subject);
               subject2 = (if HasPrefix subject1 [0x4F60, 0x7684] then [0x4F60] else subject1);
               subject3 = Trim subject2 [0x22, 0x27, 0x201C, 0x201D, 0x2018, 0x2019, 0x20];
               object1 = Trim object [0x22, 0x27, 0x201C, 0x201D, 0x2018, 0x2019, 0x20];
               canon = canonicalRelationKey relation
           in if fst canon = [] then emptyTriple
              else \<lparr>Subject = subject3, Relation = relation, Object = object1,
                     SubjectKey = S ''sub:'' @ normalizeFactKey subject3,
                     RelationKey = S ''rel:'' @ fst canon,
                     ObjectNorm = normalizeFactKey object1,
                     SingleValued = snd canon\<rparr>)"

text \<open>The attribute list shared by the two attribute parsers, in source order.\<close>

definition slotAttrs :: "gostring list" where
  "slotAttrs =
     [[0x540D, 0x5B57], [0x59D3, 0x540D], [0x771F, 0x540D], [0x6635, 0x79F0], [0x82F1, 0x6587, 0x540D], S ''ID'', [0x90AE, 0x7BB1], [0x624B, 0x673A, 0x53F7], [0x7535, 0x8BDD], [0x751F, 0x65E5],
      [0x51FA, 0x751F, 0x65E5, 0x671F], [0x5E74, 0x9F84], [0x4F4F, 0x5740], [0x5730, 0x5740], [0x6240, 0x5728, 0x5730], [0x516C, 0x53F8], [0x804C, 0x4F4D], [0x804C, 0x52A1]]"

text \<open>
  The loop of \<open>parseChinesePossessiveIs\<close> over the attributes; \<open>idx <= 0\<close> and a missing
  separator continue with the next attribute.
\<close>

fun possessiveLoop :: "gostring list \<Rightarrow> gostring \<Rightarrow> (gostring \<times> gostring \<times> gostring) option" where
  "possessiveLoop [] s = None"
| "possessiveLoop (a # attrs) s =
     (let needle = [0x7684] @ a in
      case Index s needle of
        Some (Suc i) \<Rightarrow>
          (let idx = Suc i;
               rest = drop (idx + length needle) s;
               found = (case Index rest [0x662F] of
                          Some k \<Rightarrow> Some ([0x662F], k)
                        | None \<Rightarrow> (case Index rest [0x4E3A] of
                                     Some k \<Rightarrow> Some ([0x4E3A], k)
                                   | None \<Rightarrow> None))
           in case found of
                None \<Rightarrow> possessiveLoop attrs s
              | Some (sep, sepIdx) \<Rightarrow>
                  (let subject = TrimSpace (take idx s);
                       relation = TrimSpace (a @ sep);
                       object = TrimSpace (drop (sepIdx + length sep) rest)
                   in if subject \<noteq> [] \<and> object \<noteq> [] then Some (subject, relation, object)
                      else possessiveLoop attrs s))
      | _ \<Rightarrow> possessiveLoop attrs s)"

definition parseChinesePossessiveIs :: "gostring \<Rightarrow> (gostring \<times> gostring \<times> gostring) option" where
  "parseChinesePossessiveIs s = (if \<not> Contains s [0x7684] then None else possessiveLoop slotAttrs s)"

fun attributeLoop :: "gostring list \<Rightarrow> gostring \<Rightarrow> (gostring \<times> gostring \<times> gostring) option" where
  "attributeLoop [] s = None"
| "attributeLoop (a # attrs) s =
     (let needle = a @ [0x662F] in
      case Index s needle of
        Some (Suc i) \<Rightarrow>
          (let idx = Suc i;
               subject = TrimSuffix (TrimSpace (take idx s)) [0x7684];
               object = TrimSpace (drop (idx + length needle) s);
               relation = a @ [0x662F]
           in if subject \<noteq> [] \<and> object \<noteq> [] then Some (subject, relation, object)
              else attributeLoop attrs s)
      | _ \<Rightarrow> attributeLoop attrs s)"

definition parseChineseAttributeIs :: "gostring \<Rightarrow> (gostring \<times> gostring \<times> gostring) option" where
  "parseChineseAttributeIs s = attributeLoop slotAttrs s"

fun directLoop :: "gostring list \<Rightarrow> gostring \<Rightarrow> (gostring \<times> gostring \<times> gostring) option" where
  "directLoop [] s = None"
| "directLoop (sep # seps) s =
     (case Index s sep of
        Some (Suc i) \<Rightarrow>
          (let idx = Suc i;
               subject = TrimSpace (take idx s);
               object = TrimSpace (drop (idx + length sep) s)
           in if subject = [] \<or> object = [] then directLoop seps s
              else Some (subject, sep, object))
      | _ \<Rightarrow> directLoop seps s)"

text \<open>The colon branch after the loop of \<open>parseChineseDirect\<close> assigns nothing and falls through.\<close>

definition parseChineseDirect :: "gostring \<Rightarrow> (gostring \<times> gostring \<times> gostring) option" where
  "parseChineseDirect s = directLoop [[0x540D, 0x53EB], [0x53EB, 0x505A], [0x5C31, 0x662F], [0x662F], [0x4E3A], [0x53EB]] s"

text \<open>
  \<open>parseEnglish\<close> searches the lower-cased copy and cuts the original at the offsets
  found; the two agree on the runes that \<open>toLowerRune\<close> maps (each keeps its width).
\<close>

definition englishDirect :: "gostring \<Rightarrow> gostring \<Rightarrow> gostring \<Rightarrow> (gostring \<times> gostring \<times> gostring) option" where
  "englishDirect s sep rel =
     (case Index (ToLower s) sep of
        Some (Suc i) \<Rightarrow>
          (let subject = TrimSpace (take (Suc i) s);
               object = TrimSpace (drop (Suc i + length sep) s)
           in if subject \<noteq> [] \<and> object \<noteq> [] then Some (subject, rel, object) else None)
      | _ \<Rightarrow> None)"

definition englishPossessive :: "gostring \<Rightarrow> (gostring \<times> gostring \<times> gostring) option" where
  "englishPossessive s =
     (case Index (ToLower s) [0x27, 0x73, 0x20] of
        Some (Suc i) \<Rightarrow>
          (let subj = TrimSpace (take (Suc i) s);
               rest = drop (Suc i + 3) s
           in case Index (ToLower rest) (S '' is '') of
                Some (Suc j) \<Rightarrow>
                  (let relation = TrimSpace (take (Suc j) rest @ S '' is'');
                       object = TrimSpace (drop (Suc j + 4) rest)
                   in if subj \<noteq> [] \<and> object \<noteq> [] then Some (subj, relation, object)
                      else None)
              | _ \<Rightarrow> None)
      | _ \<Rightarrow> None)"

definition parseEnglish :: "gostring \<Rightarrow> (gostring \<times> gostring \<times> gostring) option" where
  "parseEnglish s =
     (case englishPossessive s of
        Some r \<Rightarrow> Some r
      | None \<Rightarrow>
          (case englishDirect s (S '' is '') (S ''is'') of
             Some r \<Rightarrow> Some r
           | None \<Rightarrow> englishDirect s (S '' are '') (S ''are'')))"

definition ExtractFactTriple :: "gostring \<Rightarrow> FactTriple" where
  "ExtractFactTriple fact0 =
     (let fact1 = TrimSpace fact0 in
      if fact1 = [] then emptyTriple
      else
        let fact2 = TrimRight fact1 [0x3002, 0x2E, 0x21, 0xFF01, 0x3F, 0xFF1F, 0x20];
            fact = Join (Fields fact2) (S '' '')
        in case parseChinesePossessiveIs fact of
             Some (subj, rel, obj) \<Rightarrow> finalizeTriple subj rel obj
           | None \<Rightarrow>
               (case parseChineseAttributeIs fact of
                  Some (subj, rel, obj) \<Rightarrow> finalizeTriple subj rel obj
                | None \<Rightarrow>
                    (case parseChineseDirect fact of
                       Some (subj, rel, obj) \<Rightarrow> finalizeTriple subj rel obj
                     | None \<Rightarrow>
                         (case parseEnglish fact of
                            Some (subj, rel, obj) \<Rightarrow> finalizeTriple subj rel obj
                          | None \<Rightarrow> emptyTriple))))"


section \<open>The store\<close>

text \<open>
  The SQLite tables are lists of rows in table order. A \<open>time.Time\<close> is used by the
  modelled code only through \<open>Format(time.RFC3339)\<close> and \<open>Format("2006-01-02")\<close>, so a
  time is the pair of these two renderings. A vector blob is the list of the
  \<open>float32\<close> values it encodes, four bytes each. Statements are taken to succeed unless
  they break a uniqueness constraint of the schema; I/O and lock errors are not modelled,
  and \<open>withDBRetry\<close>, which only repeats a transaction after such an error, runs it once.
  The one exception is the pair of \<open>DELETE\<close> statements of the force mode of the summary
  functions, whose errors the source discards (\<open>_, _ = db.Exec\<close>): each takes a flag that
  says whether it was carried out.
\<close>

record gotime =
  rfc3339 :: gostring
  ymd :: gostring

record summary =
  s_id :: int
  s_type :: gostring
  s_period_key :: gostring
  s_start_date :: gostring
  s_end_date :: gostring
  s_json :: gostring
  s_text :: gostring
  s_source_path :: gostring
  s_created_at :: gostring

record embedding =
  e_summary_id :: int
  e_dim :: int
  e_vec :: "float64 list"
  e_l2 :: float64
  e_created_at :: gostring

record embedding_history =
  eh_summary_id :: int
  eh_vec :: "float64 list"
  eh_created_at :: gostring

record user_fact =
  uf_fact :: gostring
  uf_fact_key :: gostring
  uf_is_active :: bool
  uf_created_at :: gostring
  uf_updated_at :: gostring

record fact_history =
  fh_fact_key :: gostring
  fh_fact :: gostring
  fh_status :: gostring
  fh_version :: int
  fh_source_type :: gostring
  fh_source_key :: gostring
  fh_created_at :: gostring

record fact_conflict =
  fc_id :: int
  fc_fact_key :: gostring
  fc_existing_fact :: gostring
  fc_proposed_fact :: gostring
  fc_proposed_source_type :: gostring
  fc_proposed_source_key :: gostring
  fc_status :: gostring
  fc_created_at :: gostring
  fc_updated_at :: gostring

record pending_fact =
  pf_id :: int
  pf_fact :: gostring
  pf_fact_key :: gostring
  pf_confidence :: real
  pf_source_type :: gostring
  pf_source_key :: gostring
  pf_status :: gostring
  pf_created_at :: gostring
  pf_updated_at :: gostring

record pending_fact_embedding =
  pe_pending_fact_id :: int
  pe_dim :: int
  pe_vec :: "float64 list"
  pe_l2 :: float64
  pe_created_at :: gostring

record db =
  summaries :: "summary list"
  embeddings :: "embedding list"
  summary_embeddings_history :: "embedding_history list"
  user_facts :: "user_fact list"
  user_facts_history :: "fact_history list"
  user_fact_conflicts :: "fact_conflict list"
  pending_facts :: "pending_fact list"
  pending_fact_embeddings :: "pending_fact_embedding list"
  summaries_seq :: int

text \<open>
  \<open>summaries_seq\<close> is the entry of \<open>sqlite_sequence\<close> for the table \<open>summaries\<close>, which
  is declared \<open>AUTOINCREMENT\<close>: the largest id that a row of the table has ever had. It is
  kept because rows of \<open>summaries\<close> are deleted in force mode. The other tables lose no
  row in the code modelled here, so there the largest id in the table is that value.
\<close>

datatype db_error =
    PendingFactNotFound | UniqueConstraintFailed | ConflictNotFound | ReplacementEmpty

text \<open>
  \<open>withTx\<close>: the function runs on the transaction; an error rolls back to the database as
  it was, success commits the new one.
\<close>

definition withTx :: "db \<Rightarrow> (db \<Rightarrow> db_error + ('a \<times> db)) \<Rightarrow> (db_error + 'a) \<times> db" where
  "withTx d fn = (case fn d of Inl e \<Rightarrow> (Inl e, d) | Inr (v, d') \<Rightarrow> (Inr v, d'))"

text \<open>The row id that \<open>INTEGER PRIMARY KEY AUTOINCREMENT\<close> gives to an inserted row.\<close>

definition nextRowId :: "int list \<Rightarrow> int" where
  "nextRowId ids = fold max ids 0 + 1"

text \<open>The same for a table that has lost rows: one more than the largest id ever used.\<close>

definition nextAutoId :: "int \<Rightarrow> int list \<Rightarrow> int" where
  "nextAutoId seq ids = max seq (fold max ids 0) + 1"

text \<open>
  The order of SQLite's \<open>BINARY\<close> collation on text and of Go's \<open>>\<close> on strings: byte
  order of the UTF-8 encodings, which is the lexicographic order of the code points.
\<close>

fun strLess :: "gostring \<Rightarrow> gostring \<Rightarrow> bool" where
  "strLess [] [] = False"
| "strLess [] (y # ys) = True"
| "strLess (x # xs) [] = False"
| "strLess (x # xs) (y # ys) = (x < y \<or> (x = y \<and> strLess xs ys))"

text \<open>
  \<open>sort.SliceStable(xs, less)\<close>. \<open>ORDER BY\<close> is modelled by the same stable sort of the
  table order; SQL leaves the order of rows with equal sort keys open.
\<close>

fun insertBy :: "('a \<Rightarrow> 'a \<Rightarrow> bool) \<Rightarrow> 'a \<Rightarrow> 'a list \<Rightarrow> 'a list" where
  "insertBy lt x [] = [x]"
| "insertBy lt x (y # ys) = (if lt y x then y # insertBy lt x ys else x # y # ys)"

definition sortSliceStable :: "('a \<Rightarrow> 'a \<Rightarrow> bool) \<Rightarrow> 'a list \<Rightarrow> 'a list" where
  "sortSliceStable lt xs = foldr (insertBy lt) xs []"

subsection \<open>Summaries and embeddings\<close>

definition summaryId :: "db \<Rightarrow> gostring \<Rightarrow> gostring \<Rightarrow> int option" where
  "summaryId d typ key =
     map_option s_id (find (\<lambda>s. s_type s = typ \<and> s_period_key s = key) (summaries d))"

text \<open>\<open>upsertSummary\<close>: insert, or update \<open>json\<close>, \<open>text\<close> and \<open>source_path\<close> of the row with the key; then read the id back.\<close>

definition upsertSummary ::
  "db \<Rightarrow> gotime \<Rightarrow> gostring \<Rightarrow> gostring \<Rightarrow> gostring \<Rightarrow> gostring \<Rightarrow> gostring \<Rightarrow> gostring \<Rightarrow> gostring
     \<Rightarrow> int \<times> db" where
  "upsertSummary d now typ key startDate endDate js txt srcPath =
     (case summaryId d typ key of
        Some i \<Rightarrow>
          (i, d\<lparr>summaries :=
                 map (\<lambda>s. if s_type s = typ \<and> s_period_key s = key
                           then s\<lparr>s_json := js, s_text := txt, s_source_path := srcPath\<rparr> else s)
                   (summaries d)\<rparr>)
      | None \<Rightarrow>
          (let i = nextAutoId (summaries_seq d) (map s_id (summaries d)) in
           (i, d\<lparr>summaries := summaries d @
                  [\<lparr>s_id = i, s_type = typ, s_period_key = key, s_start_date = startDate,
                    s_end_date = endDate, s_json = js, s_text = txt, s_source_path = srcPath,
                    s_created_at = rfc3339 now\<rparr>],
                 summaries_seq := i\<rparr>)))"

definition hasEmbedding :: "db \<Rightarrow> int \<Rightarrow> bool" where
  "hasEmbedding d summaryID \<longleftrightarrow> (\<exists>e \<in> set (embeddings d). e_summary_id e = summaryID)"

definition deleteEmbedding :: "db \<Rightarrow> int \<Rightarrow> db" where
  "deleteEmbedding d summaryID =
     d\<lparr>embeddings := filter (\<lambda>e. e_summary_id e \<noteq> summaryID) (embeddings d)\<rparr>"

definition upsertEmbedding :: "db \<Rightarrow> int \<Rightarrow> float64 list \<Rightarrow> float64 \<Rightarrow> gostring \<Rightarrow> db" where
  "upsertEmbedding d summaryID vec l2 createdAt =
     (deleteEmbedding d summaryID)\<lparr>embeddings :=
        embeddings (deleteEmbedding d summaryID) @
          [\<lparr>e_summary_id = summaryID, e_dim = int (length vec), e_vec = vec, e_l2 = l2,
            e_created_at = createdAt\<rparr>]\<rparr>"

text \<open>
  The embedding service is a function from the input text to the decoded vector, \<open>None\<close>
  when the request or \<open>decodeEmbedding\<close> fails. \<open>embedQueryText\<close> adds the norm.
\<close>

definition embedQueryText :: "(gostring \<Rightarrow> float64 list option) \<Rightarrow> gostring \<Rightarrow> (float64 list \<times> float64) option" where
  "embedQueryText embedSvc txt = map_option (\<lambda>vec. (vec, l2norm vec)) (embedSvc txt)"

definition upsertEmbeddingFromText ::
  "(gostring \<Rightarrow> float64 list option) \<Rightarrow> db \<Rightarrow> gotime \<Rightarrow> int \<Rightarrow> gostring \<Rightarrow> db" where
  "upsertEmbeddingFromText embedSvc d now summaryID txt =
     (case embedQueryText embedSvc txt of
        None \<Rightarrow> d
      | Some (vec, l2) \<Rightarrow>
          if length vec = 0 \<or> feq l2 (Fin 0) then d
          else upsertEmbedding d summaryID vec l2 (rfc3339 now))"

text \<open>\<open>syncFactToSearch\<close> and \<open>removeFactFromSearch\<close>: the mirror of a fact in the search index.\<close>

definition syncFactToSearch ::
  "(gostring \<Rightarrow> float64 list option) \<Rightarrow> db \<Rightarrow> gotime \<Rightarrow> gostring \<Rightarrow> gostring \<Rightarrow> gostring \<Rightarrow> db" where
  "syncFactToSearch embedSvc d now factKey content0 source =
     (let content = TrimSpace content0 in
      if factKey = [] \<or> content = [] then d
      else
        case upsertSummary d now (S ''fact'') (S ''fact:'' @ factKey) (ymd now) (ymd now) []
               content source of
          (i, d') \<Rightarrow> if i > 0 then upsertEmbeddingFromText embedSvc d' now i content else d')"

definition removeFactFromSearch :: "db \<Rightarrow> gostring \<Rightarrow> gostring \<Rightarrow> db" where
  "removeFactFromSearch d factKey reason =
     (case summaryId d (S ''fact'') (S ''fact:'' @ factKey) of
        Some i \<Rightarrow>
          if i > 0 then
            (deleteEmbedding d i)\<lparr>summaries :=
               map (\<lambda>s. if s_id s = i then s\<lparr>s_source_path := reason\<rparr> else s)
                 (summaries (deleteEmbedding d i))\<rparr>
          else d
      | None \<Rightarrow> d)"

subsection \<open>User facts, history and conflicts\<close>

definition getActiveUserFactByKey :: "db \<Rightarrow> gostring \<Rightarrow> gostring option" where
  "getActiveUserFactByKey d factKey =
     (if factKey = [] then None
      else map_option uf_fact
             (find (\<lambda>r. uf_fact_key r = factKey \<and> uf_is_active r) (user_facts d)))"

text \<open>
  The scan of \<open>getActiveUserFactBySlotKey\<close> returns the first active row, in the order the
  query yields the rows, whose triple has the slot key.
\<close>

definition getActiveUserFactBySlotKey :: "db \<Rightarrow> gostring \<Rightarrow> (gostring \<times> gostring) option" where
  "getActiveUserFactBySlotKey d slotKey =
     (if slotKey = [] then None
      else map_option (\<lambda>r. (uf_fact_key r, uf_fact r))
             (find (\<lambda>r. uf_is_active r \<and> SlotKey (ExtractFactTriple (uf_fact r)) = slotKey)
                (user_facts d)))"

text \<open>\<open>COALESCE(MAX(version), 0) + 1\<close> over the history rows of the key.\<close>

definition nextUserFactVersion :: "db \<Rightarrow> gostring \<Rightarrow> int" where
  "nextUserFactVersion d factKey =
     (if factKey = [] then 1
      else case map fh_version (filter (\<lambda>h. fh_fact_key h = factKey) (user_facts_history d)) of
             [] \<Rightarrow> 0 + 1
           | v # vs \<Rightarrow> fold max vs v + 1)"

definition appendUserFactHistory ::
  "db \<Rightarrow> gostring \<Rightarrow> gostring \<Rightarrow> gostring \<Rightarrow> gostring \<Rightarrow> gostring \<Rightarrow> gotime \<Rightarrow> int \<Rightarrow> db" where
  "appendUserFactHistory d factKey factText status0 sourceType0 sourceKey0 when version0 =
     (if factKey = [] \<or> factText = [] then d
      else
        let status = (if status0 = [] then S ''active'' else status0);
            sourceType = (if sourceType0 = [] then S ''unknown'' else sourceType0);
            sourceKey = (if sourceKey0 = [] then S ''-'' else sourceKey0);
            version = (if version0 \<le> 0 then nextUserFactVersion d factKey else version0)
        in d\<lparr>user_facts_history := user_facts_history d @
               [\<lparr>fh_fact_key = factKey, fh_fact = factText, fh_status = status,
                 fh_version = version, fh_source_type = sourceType,
                 fh_source_key = sourceKey, fh_created_at = rfc3339 when\<rparr>]\<rparr>)"

definition insertUserFactConflict ::
  "db \<Rightarrow> gostring \<Rightarrow> gostring \<Rightarrow> gostring \<Rightarrow> gostring \<Rightarrow> gostring \<Rightarrow> gotime \<Rightarrow> int \<times> db" where
  "insertUserFactConflict d factKey existingFact proposedFact sourceType sourceKey when =
     (let i = nextRowId (map fc_id (user_fact_conflicts d)) in
      (i, d\<lparr>user_fact_conflicts := user_fact_conflicts d @
             [\<lparr>fc_id = i, fc_fact_key = factKey, fc_existing_fact = existingFact,
               fc_proposed_fact = proposedFact, fc_proposed_source_type = sourceType,
               fc_proposed_source_key = sourceKey, fc_status = S ''conflict'',
               fc_created_at = rfc3339 when, fc_updated_at = rfc3339 when\<rparr>]\<rparr>))"

text \<open>
  \<open>createUserFactConflict\<close>: an unresolved conflict with the same key and proposal is
  reused (the one with the greatest id, when that id is positive), else a row is inserted.
\<close>

definition createUserFactConflict ::
  "db \<Rightarrow> gostring \<Rightarrow> gostring \<Rightarrow> gostring \<Rightarrow> gostring \<Rightarrow> gostring \<Rightarrow> gotime \<Rightarrow> int \<times> db" where
  "createUserFactConflict d factKey existingFact proposedFact sourceType sourceKey when =
     (if factKey = [] \<or> existingFact = [] \<or> proposedFact = [] then (0, d)
      else
        case map fc_id (filter (\<lambda>c. fc_status c = S ''conflict'' \<and> fc_fact_key c = factKey
                                      \<and> fc_proposed_fact c = proposedFact)
                          (user_fact_conflicts d)) of
          i # ids \<Rightarrow>
            if fold max ids i > 0 then (fold max ids i, d)
            else insertUserFactConflict d factKey existingFact proposedFact sourceType sourceKey when
        | [] \<Rightarrow> insertUserFactConflict d factKey existingFact proposedFact sourceType sourceKey when)"

text \<open>
  \<open>upsertUserFact\<close>: \<open>INSERT ... ON CONFLICT(fact_key) DO UPDATE\<close>. \<open>touchRow\<close> is the
  update of fact, is_active and updated_at on a row with the key.
\<close>

definition touchRow :: "gostring \<Rightarrow> gostring \<Rightarrow> bool \<Rightarrow> gotime \<Rightarrow> user_fact \<Rightarrow> user_fact" where
  "touchRow factText factKey active now r =
     (if uf_fact_key r = factKey
      then r\<lparr>uf_fact := factText, uf_is_active := active, uf_updated_at := rfc3339 now\<rparr>
      else r)"

definition upsertUserFact :: "db \<Rightarrow> gostring \<Rightarrow> gostring \<Rightarrow> bool \<Rightarrow> gotime \<Rightarrow> db" where
  "upsertUserFact d factText factKey active now =
     (if factKey = [] then d
      else if \<exists>r \<in> set (user_facts d). uf_fact_key r = factKey then
        d\<lparr>user_facts := map (touchRow factText factKey active now) (user_facts d)\<rparr>
      else
        d\<lparr>user_facts := user_facts d @
            [\<lparr>uf_fact = factText, uf_fact_key = factKey, uf_is_active = active,
              uf_created_at = rfc3339 now, uf_updated_at = rfc3339 now\<rparr>]\<rparr>)"

section \<open>The fact engine\<close>

record RememberOutcome =
  Status :: gostring
  FactKey :: gostring
  ConflictID :: int
  Existing :: gostring

definition outcome :: "gostring \<Rightarrow> gostring \<Rightarrow> int \<Rightarrow> gostring \<Rightarrow> RememberOutcome" where
  "outcome st k cid ex = \<lparr>Status = st, FactKey = k, ConflictID = cid, Existing = ex\<rparr>"

text \<open>
  The conflict branch shared by the exact-key and the slot-key case of
  \<open>proposeRememberFactWith\<close>: the conflict row, and the history row when \<open>cid > 0\<close>.
\<close>

definition recordConflict ::
  "db \<Rightarrow> gostring \<Rightarrow> gostring \<Rightarrow> gostring \<Rightarrow> gostring \<Rightarrow> gostring \<Rightarrow> gotime \<Rightarrow> RememberOutcome \<times> db" where
  "recordConflict d key existing content sourceType sourceKey when =
     (case createUserFactConflict d key existing content sourceType sourceKey when of
        (cid, d1) \<Rightarrow>
          (let d2 = (if cid > 0
                     then appendUserFactHistory d1 key content (S ''conflict'') sourceType sourceKey when 0
                     else d1)
           in (outcome (S ''conflict'') key cid existing, d2)))"

definition proposeRememberFactWith ::
  "db \<Rightarrow> gostring \<Rightarrow> gostring \<Rightarrow> gostring \<Rightarrow> gotime \<Rightarrow> RememberOutcome \<times> db" where
  "proposeRememberFactWith d content0 sourceType0 sourceKey0 when =
     (let content = TrimSpace content0 in
      if content = [] then (outcome (S ''noop'') [] 0 [], d)
      else
        let factKey = deriveFactKeyFromSubject content in
        if factKey = [] then (outcome (S ''noop'') [] 0 [], d)
        else
          let sourceType = (if sourceType0 = [] then S ''remember'' else sourceType0);
              sourceKey = (if sourceKey0 = [] then ymd when else sourceKey0)
          in
          case getActiveUserFactByKey d factKey of
            Some existing \<Rightarrow>
              if TrimSpace existing = TrimSpace content
              then (outcome (S ''noop'') factKey 0 [], upsertUserFact d existing factKey True when)
              else recordConflict d factKey existing content sourceType sourceKey when
          | None \<Rightarrow>
              (let slotKey = SlotKey (ExtractFactTriple content) in
               case (if slotKey \<noteq> [] then getActiveUserFactBySlotKey d slotKey else None) of
                 Some (existingKey, existingFact) \<Rightarrow>
                   if TrimSpace existingFact = TrimSpace content
                   then (outcome (S ''noop'') existingKey 0 [],
                         upsertUserFact d existingFact existingKey True when)
                   else recordConflict d existingKey existingFact content sourceType sourceKey when
               | None \<Rightarrow>
                   (outcome (S ''remembered'') factKey 0 [],
                    appendUserFactHistory (upsertUserFact d content factKey True when)
                      factKey content (S ''active'') sourceType sourceKey when 0)))"

text \<open>
  \<open>ProposeRememberFact\<close>: the transaction, then the search mirror after the commit.
  \<open>embedSvc\<close> is the embedding service and \<open>now\<close> the clock read by \<open>syncFactToSearch\<close>.
\<close>

definition ProposeRememberFact ::
  "(gostring \<Rightarrow> float64 list option) \<Rightarrow> gotime \<Rightarrow> db \<Rightarrow> gostring \<Rightarrow> gostring \<Rightarrow> gostring \<Rightarrow> gotime
     \<Rightarrow> (db_error + RememberOutcome) \<times> db" where
  "ProposeRememberFact embedSvc now d content0 sourceType sourceKey when =
     (let content = TrimSpace content0 in
      if content = [] then (Inr (outcome (S ''noop'') [] 0 []), d)
      else
        case withTx d (\<lambda>tx. Inr (proposeRememberFactWith tx content sourceType sourceKey when)) of
          (Inl e, d') \<Rightarrow> (Inl e, d')
        | (Inr out, d') \<Rightarrow>
            (Inr out,
             if Status out = S ''remembered''
             then syncFactToSearch embedSvc d' now (FactKey out) content sourceType else d'))"

text \<open>
  The transaction body of \<open>RetractFact\<close>; the value returned is \<open>removeKey\<close>.
\<close>

definition retractFactTx :: "db \<Rightarrow> gostring \<Rightarrow> gostring \<Rightarrow> gostring \<Rightarrow> gotime \<Rightarrow> gostring \<times> db" where
  "retractFactTx tx content sourceType sourceKey when =
     (let factKey = deriveFactKeyFromSubject content in
      case (if factKey \<noteq> [] then getActiveUserFactByKey tx factKey else None) of
        Some existing \<Rightarrow>
          (factKey,
           appendUserFactHistory (upsertUserFact tx existing factKey False when)
             factKey existing (S ''forgotten'') sourceType sourceKey when 0)
      | None \<Rightarrow>
          (let slotKey = SlotKey (ExtractFactTriple content) in
           case (if slotKey \<noteq> [] then getActiveUserFactBySlotKey tx slotKey else None) of
             Some (existingKey, existingFact) \<Rightarrow>
               (existingKey,
                appendUserFactHistory (upsertUserFact tx existingFact existingKey False when)
                  existingKey existingFact (S ''forgotten'') sourceType sourceKey when 0)
           | None \<Rightarrow> ([], tx)))"

definition RetractFact ::
  "db \<Rightarrow> gostring \<Rightarrow> gostring \<Rightarrow> gostring \<Rightarrow> gotime \<Rightarrow> db_error option \<times> db" where
  "RetractFact d content0 sourceType0 sourceKey0 when =
     (let content = TrimSpace content0 in
      if content = [] then (None, d)
      else
        let sourceType = (if sourceType0 = [] then S ''forget'' else sourceType0);
            sourceKey = (if sourceKey0 = [] then ymd when else sourceKey0)
        in case withTx d (\<lambda>tx. Inr (retractFactTx tx content sourceType sourceKey when)) of
             (Inl e, d') \<Rightarrow> (Some e, d')
           | (Inr removeKey, d') \<Rightarrow>
               (None,
                if removeKey \<noteq> [] then removeFactFromSearch d' removeKey (S ''forgotten'')
                else d'))"

subsection \<open>Pending facts\<close>

definition getPendingFactByID :: "db \<Rightarrow> int \<Rightarrow> pending_fact option" where
  "getPendingFactByID d i = find (\<lambda>p. pf_id p = i) (pending_facts d)"

text \<open>
  \<open>UPDATE pending_facts SET status=?, updated_at=? WHERE id=?\<close>. The statement fails when
  the new row would repeat the \<open>(fact_key, status, source_type, source_key)\<close> of another.
\<close>

definition setPendingStatus :: "db \<Rightarrow> int \<Rightarrow> gostring \<Rightarrow> gostring \<Rightarrow> db_error + db" where
  "setPendingStatus d i newStatus now =
     (if \<exists>p \<in> set (pending_facts d). \<exists>q \<in> set (pending_facts d).
           pf_id p = i \<and> pf_id q \<noteq> i \<and> pf_fact_key q = pf_fact_key p \<and> pf_status q = newStatus
           \<and> pf_source_type q = pf_source_type p \<and> pf_source_key q = pf_source_key p
      then Inl UniqueConstraintFailed
      else Inr (d\<lparr>pending_facts :=
                  map (\<lambda>p. if pf_id p = i then p\<lparr>pf_status := newStatus, pf_updated_at := now\<rparr> else p)
                    (pending_facts d)\<rparr>))"

text \<open>\<open>fmt.Sprintf("pending:%d", id)\<close>, with \<open>itoa64\<close> for the decimal digits.\<close>

fun digitsOf :: "nat \<Rightarrow> nat \<Rightarrow> gostring" where
  "digitsOf 0 v = []"
| "digitsOf (Suc fuel) v =
     (if v < 10 then [0x30 + v] else digitsOf fuel (v div 10) @ [0x30 + v mod 10])"

definition itoa64 :: "int \<Rightarrow> gostring" where
  "itoa64 v =
     (if v = 0 then S ''0''
      else if v < 0 then S ''-'' @ digitsOf 20 (nat (- v))
      else digitsOf 20 (nat v))"

definition rememberPendingTx ::
  "db \<Rightarrow> int \<Rightarrow> gotime \<Rightarrow> db_error + ((RememberOutcome \<times> gostring \<times> gostring) \<times> db)" where
  "rememberPendingTx tx i nowTime =
     (case getPendingFactByID tx i of
        None \<Rightarrow> Inl PendingFactNotFound
      | Some pf \<Rightarrow>
          if pf_status pf \<noteq> S ''pending'' then Inl PendingFactNotFound
          else
            case proposeRememberFactWith tx (pf_fact pf) (S ''pending'') (pf_source_key pf) nowTime of
              (out, tx1) \<Rightarrow>
                (let newStatus = (if Status out = S ''conflict'' then S ''conflict''
                                  else S ''accepted'')
                 in case setPendingStatus tx1 i newStatus (rfc3339 nowTime) of
                      Inl e \<Rightarrow> Inl e
                    | Inr tx2 \<Rightarrow>
                        Inr ((out, TrimSpace (pf_fact pf), pf_source_type pf), tx2)))"

text \<open>\<open>RememberPendingFact\<close> with an open database; \<open>nowTime\<close> is the clock.\<close>

definition RememberPendingFact ::
  "(gostring \<Rightarrow> float64 list option) \<Rightarrow> gotime \<Rightarrow> db \<Rightarrow> int \<Rightarrow> (db_error + RememberOutcome) \<times> db" where
  "RememberPendingFact embedSvc nowTime d i =
     (case withTx d (\<lambda>tx. rememberPendingTx tx i nowTime) of
        (Inl e, d') \<Rightarrow> (Inl e, d')
      | (Inr (out, acceptedContent, acceptedSource), d') \<Rightarrow>
          (Inr out,
           if Status out = S ''remembered''
           then syncFactToSearch embedSvc d' nowTime (FactKey out) acceptedContent acceptedSource
           else d'))"

definition rejectPendingTx :: "db \<Rightarrow> int \<Rightarrow> gotime \<Rightarrow> db_error + (unit \<times> db)" where
  "rejectPendingTx tx i nowTime =
     (case getPendingFactByID tx i of
        None \<Rightarrow> Inl PendingFactNotFound
      | Some pf \<Rightarrow>
          if pf_status pf \<noteq> S ''pending'' then Inl PendingFactNotFound
          else
            case setPendingStatus tx i (S ''rejected'') (rfc3339 nowTime) of
              Inl e \<Rightarrow> Inl e
            | Inr tx1 \<Rightarrow>
                Inr ((), appendUserFactHistory tx1 (deriveFactKeyFromSubject (pf_fact pf))
                           (TrimSpace (pf_fact pf)) (S ''rejected'') (S ''pending_reject'')
                           (S ''pending:'' @ itoa64 (pf_id pf)) nowTime 0))"

definition RejectPendingFact :: "gotime \<Rightarrow> db \<Rightarrow> int \<Rightarrow> db_error option \<times> db" where
  "RejectPendingFact nowTime d i =
     (case withTx d (\<lambda>tx. rejectPendingTx tx i nowTime) of
        (Inl e, d') \<Rightarrow> (Some e, d')
      | (Inr _, d') \<Rightarrow> (None, d'))"


subsection \<open>Resolving a conflict by replacement\<close>

definition getFactConflictByID :: "db \<Rightarrow> int \<Rightarrow> fact_conflict option" where
  "getFactConflictByID d i = (if i \<le> 0 then None else find (\<lambda>c. fc_id c = i) (user_fact_conflicts d))"

definition resolveReplaceTx ::
  "db \<Rightarrow> int \<Rightarrow> gostring \<Rightarrow> gotime \<Rightarrow> db_error + ((gostring \<times> gostring) \<times> db)" where
  "resolveReplaceTx tx i replacement now =
     (case getFactConflictByID tx i of
        None \<Rightarrow> Inl ConflictNotFound
      | Some c \<Rightarrow>
          if fc_status c \<noteq> S ''conflict'' then Inl ConflictNotFound
          else
            let repl0 = (if TrimSpace replacement = [] then fc_proposed_fact c else replacement);
                repl = TrimSpace repl0
            in if repl = [] then Inl ReplacementEmpty
               else
                 let current = (case getActiveUserFactByKey tx (fc_fact_key c) of
                                  Some f \<Rightarrow> f | None \<Rightarrow> []);
                     sourceKey = S ''conflict:'' @ itoa64 (fc_id c);
                     tx1 = upsertUserFact tx repl (fc_fact_key c) True now;
                     tx2 = (if TrimSpace current \<noteq> []
                            then appendUserFactHistory tx1 (fc_fact_key c) current (S ''archived'')
                                   (S ''conflict_replace'') sourceKey now 0
                            else tx1);
                     tx3 = appendUserFactHistory tx2 (fc_fact_key c) repl (S ''active'')
                             (S ''conflict_replace'') sourceKey now 0;
                     tx4 = tx3\<lparr>user_fact_conflicts :=
                             map (\<lambda>x. if fc_id x = i
                                       then x\<lparr>fc_status := S ''resolved_replace'',
                                              fc_updated_at := rfc3339 now\<rparr>
                                       else x)
                               (user_fact_conflicts tx3)\<rparr>
                 in Inr ((fc_fact_key c, repl), tx4))"

definition ResolveFactConflictReplace ::
  "(gostring \<Rightarrow> float64 list option) \<Rightarrow> gotime \<Rightarrow> db \<Rightarrow> int \<Rightarrow> gostring \<Rightarrow> gotime
     \<Rightarrow> db_error option \<times> db" where
  "ResolveFactConflictReplace embedSvc clock d i replacement now =
     (if i \<le> 0 then (Some ConflictNotFound, d)
      else
        case withTx d (\<lambda>tx. resolveReplaceTx tx i replacement now) of
          (Inl e, d') \<Rightarrow> (Some e, d')
        | (Inr (factKey, replacementTrim), d') \<Rightarrow>
            (None,
             if factKey \<noteq> [] \<and> replacementTrim \<noteq> []
             then syncFactToSearch embedSvc d' clock factKey replacementTrim (S ''conflict_replace'')
             else d'))"

text \<open>The history row that \<open>appendUserFactHistory\<close> inserts when no version is given.\<close>

definition historyRow ::
  "db \<Rightarrow> gostring \<Rightarrow> gostring \<Rightarrow> gostring \<Rightarrow> gostring \<Rightarrow> gostring \<Rightarrow> gotime \<Rightarrow> fact_history" where
  "historyRow d key txt st srcT srcK when =
     \<lparr>fh_fact_key = key, fh_fact = txt, fh_status = st,
      fh_version = nextUserFactVersion d key,
      fh_source_type = (if srcT = [] then S ''unknown'' else srcT),
      fh_source_key = (if srcK = [] then S ''-'' else srcK),
      fh_created_at = rfc3339 when\<rparr>"

section \<open>Prompt assembly: the remembered facts\<close>






section \<open>Retrieval\<close>

record Config =
  SearchTopK :: int
  SearchMinScore :: float64
  SearchMinStrong :: float64
  SearchMinGap :: float64
  EnableRerank :: bool
  RerankForce :: bool
  RerankMode :: gostring
  RerankURL :: gostring
  RerankTopN :: int
  RerankMinBatch :: int

record SearchHit =
  Score :: float64
  EmbScore :: float64
  Type :: gostring
  Date :: gostring
  Text :: gostring

definition shouldRerank :: "SearchHit list \<Rightarrow> Config \<Rightarrow> bool" where
  "shouldRerank hits cfg =
     (if \<not> EnableRerank cfg then False
      else if RerankForce cfg then length hits \<ge> 2
      else if int (length hits) < RerankMinBatch cfg then False
      else
        case hits of
          h0 # h1 # _ \<Rightarrow>
            (let top1 = EmbScore h0;
                 top2 = EmbScore h1;
                 gap = fsub top1 top2;
                 mode0 = ToLower (TrimSpace (RerankMode cfg));
                 mode = (if mode0 = [] then S ''conservative'' else mode0)
             in if mode = S ''always'' then True
                else if mode = S ''ambiguous'' then
                  (if flt top1 (SearchMinStrong cfg) then False
                   else
                     let t2min0 = fsub (SearchMinStrong cfg) (SearchMinGap cfg);
                         t2min = (if flt t2min0 (SearchMinScore cfg) then SearchMinScore cfg
                                  else t2min0)
                     in if flt top2 t2min then False
                        else fle gap (fmul (SearchMinGap cfg) (Fin 1.8)))
                else if mode = S ''smart'' then fge top1 (SearchMinStrong cfg)
                else
                  (if flt top1 (SearchMinStrong cfg) then False
                   else if flt gap (fmul (SearchMinGap cfg) (Fin 1.8)) then False
                   else True))
        | _ \<Rightarrow> False)"

text \<open>
  The rerank service is a function from the query and the documents to the decoded score
  list, \<open>None\<close> when the request or the decoding fails. \<open>rerankTexts\<close> returns \<open>None\<close> for
  an error and the empty list for \<open>nil, nil\<close>.
\<close>

definition rerankTexts ::
  "(gostring \<Rightarrow> gostring list \<Rightarrow> float64 list option) \<Rightarrow> Config \<Rightarrow> gostring \<Rightarrow> gostring list
     \<Rightarrow> float64 list option" where
  "rerankTexts rerankSvc cfg query docs =
     (if \<not> EnableRerank cfg then Some []
      else if TrimSpace (RerankURL cfg) = [] then None
      else if int (length docs) < RerankMinBatch cfg then Some []
      else case rerankSvc query docs of
             None \<Rightarrow> None
           | Some scores \<Rightarrow> if length scores \<noteq> length docs then None else Some scores)"

text \<open>
  \<open>dotProductExactDim\<close>; its caller has checked \<open>dim == len(q)\<close>. The blob is shorter
  than \<open>dim * 4\<close> bytes exactly when it holds fewer than \<open>dim\<close> values.
\<close>

definition dotProductExactDim :: "float64 list \<Rightarrow> float64 list \<Rightarrow> int \<Rightarrow> float64 option" where
  "dotProductExactDim q blob ndim =
     (if int (length blob) < ndim then None
      else Some (fold (\<lambda>(a, x) s. fadd s (fmul a x)) (zip q (take (nat ndim) blob)) (Fin 0)))"

datatype search_error = EmbedFailed | SliceBoundsPanic

text \<open>
  The scan of the join of \<open>embeddings\<close> with \<open>summaries\<close>. \<open>extractHumanText\<close> decodes JSON
  with \<open>encoding/json\<close>, which is not modelled: it is a parameter.
\<close>

fun scanRows ::
  "(gostring \<Rightarrow> gostring) \<Rightarrow> Config \<Rightarrow> float64 list \<Rightarrow> float64 \<Rightarrow> (summary \<times> embedding) list
     \<Rightarrow> SearchHit list" where
  "scanRows extractHumanText cfg qv qn [] = []"
| "scanRows extractHumanText cfg qv qn ((s, e) # rows) =
     (let rest = scanRows extractHumanText cfg qv qn rows in
      if e_dim e \<noteq> int (length qv) \<or> feq (e_l2 e) (Fin 0) then rest
      else
        case dotProductExactDim qv (e_vec e) (e_dim e) of
          None \<Rightarrow> rest
        | Some dot \<Rightarrow>
            (let embScore = fdiv dot (fmul qn (e_l2 e)) in
             if isNaN embScore \<or> isInf embScore then rest
             else if flt embScore (SearchMinScore cfg) then rest
             else
               let displayText0 =
                     (if s_type s = S ''fact'' \<and> TrimSpace (s_text s) \<noteq> []
                      then TrimSpace (s_text s) else extractHumanText (s_json s));
                   displayText = TrimSpace displayText0
               in if displayText = [] then rest
                  else \<lparr>Score = embScore, EmbScore = embScore, Type = s_type s,
                         Date = s_period_key s, Text = displayText\<rparr> # rest))"

definition joinedRows :: "db \<Rightarrow> (summary \<times> embedding) list" where
  "joinedRows d =
     concat (map (\<lambda>e. map (\<lambda>s. (s, e)) (filter (\<lambda>s. s_id s = e_summary_id e) (summaries d)))
               (embeddings d))"

text \<open>Steps 3 to 6 of \<open>SearchWithScore\<close>. \<open>sort.Slice\<close> leaves the order of equal scores open; it is modelled by the stable sort.\<close>

definition rankHits ::
  "(gostring \<Rightarrow> gostring list \<Rightarrow> float64 list option) \<Rightarrow> Config \<Rightarrow> gostring \<Rightarrow> SearchHit list
     \<Rightarrow> search_error + SearchHit list" where
  "rankHits rerankSvc cfg query hits0 =
     (let hits1 = sortSliceStable (\<lambda>a b. fgt (EmbScore a) (EmbScore b)) hits0;
          topN0 = (if RerankTopN cfg \<le> 0 then SearchTopK cfg else RerankTopN cfg);
          topN = (if topN0 < SearchTopK cfg then SearchTopK cfg else topN0)
      in if int (length hits1) > topN \<and> topN < 0 then Inl SliceBoundsPanic
         else
           let hits2 = (if int (length hits1) > topN then take (nat topN) hits1 else hits1);
               hits3 =
                 (if shouldRerank hits2 cfg then
                    (case rerankTexts rerankSvc cfg query (map Text hits2) of
                       Some scores \<Rightarrow>
                         if length scores = length hits2 then
                           sortSliceStable (\<lambda>a b. fgt (Score a) (Score b))
                             (map (\<lambda>(h, sc). h\<lparr>Score := sc\<rparr>) (zip hits2 scores))
                         else hits2
                     | None \<Rightarrow> hits2)
                  else hits2)
           in if int (length hits3) > SearchTopK cfg then
                (if SearchTopK cfg < 0 then Inl SliceBoundsPanic
                 else Inr (take (nat (SearchTopK cfg)) hits3))
              else Inr hits3)"

definition SearchWithScore ::
  "(gostring \<Rightarrow> float64 list option) \<Rightarrow> (gostring \<Rightarrow> gostring list \<Rightarrow> float64 list option) \<Rightarrow>
   (gostring \<Rightarrow> gostring) \<Rightarrow> db \<Rightarrow> Config \<Rightarrow> gostring \<Rightarrow> search_error + SearchHit list" where
  "SearchWithScore embedSvc rerankSvc extractHumanText d cfg query0 =
     (let query = TrimSpace query0 in
      if query = [] then Inr []
      else
        case embedQueryText embedSvc query of
          None \<Rightarrow> Inl EmbedFailed
        | Some (qv, qn) \<Rightarrow>
            if feq qn (Fin 0) then Inr []
            else
              let hits = scanRows extractHumanText cfg qv qn (joinedRows d) in
              if length hits = 0 then Inr []
              else rankHits rerankSvc cfg query hits)"

section \<open>Embedding drift guard\<close>

datatype drift_level = WARN | BLOCK

definition DriftWarnThreshold :: float64 where
  "DriftWarnThreshold = Fin 0.15"

definition DriftBlockThreshold :: float64 where
  "DriftBlockThreshold = Fin 0.25"

definition cosineDistance :: "float64 list \<Rightarrow> float64 list \<Rightarrow> float64" where
  "cosineDistance a b =
     (if length a \<noteq> length b then Fin 1
      else
        let dot = fold (\<lambda>(x, y) s. fadd s (fmul x y)) (zip a b) (Fin 0);
            na = sumSquares a;
            nb = sumSquares b
        in if feq na (Fin 0) \<or> feq nb (Fin 0) then Fin 1
           else fsub (Fin 1) (fdiv dot (fmul (fsqrt na) (fsqrt nb))))"

text \<open>\<open>loadLastEmbedding\<close>: \<open>WHERE summary_id=? ORDER BY created_at DESC LIMIT 1\<close>.\<close>

definition loadLastEmbedding :: "db \<Rightarrow> int \<Rightarrow> float64 list option" where
  "loadLastEmbedding d summaryID =
     (case sortSliceStable (\<lambda>a b. strLess (eh_created_at b) (eh_created_at a))
             (filter (\<lambda>h. eh_summary_id h = summaryID) (summary_embeddings_history d)) of
        [] \<Rightarrow> None
      | h # _ \<Rightarrow> Some (eh_vec h))"

definition CheckEmbeddingDrift :: "db \<Rightarrow> int \<Rightarrow> float64 list \<Rightarrow> drift_level option" where
  "CheckEmbeddingDrift d summaryID newVec =
     (case loadLastEmbedding d summaryID of
        None \<Rightarrow> None
      | Some oldVec \<Rightarrow>
          (let dst = cosineDistance oldVec newVec in
           if fgt dst DriftBlockThreshold then Some BLOCK
           else if fgt dst DriftWarnThreshold then Some WARN
           else None))"

definition saveEmbeddingHistory :: "db \<Rightarrow> gotime \<Rightarrow> int \<Rightarrow> float64 list \<Rightarrow> db" where
  "saveEmbeddingHistory d now summaryID vec =
     d\<lparr>summary_embeddings_history := summary_embeddings_history d @
         [\<lparr>eh_summary_id = summaryID, eh_vec = vec, eh_created_at = rfc3339 now\<rparr>]\<rparr>"

datatype embed_error = SummaryNotFound | EmbeddingRequestFailed

text \<open>\<open>ensureEmbedding\<close>: nothing is written when the summary already has its embedding row.\<close>

definition ensureEmbedding ::
  "(gostring \<Rightarrow> float64 list option) \<Rightarrow> db \<Rightarrow> gotime \<Rightarrow> gostring \<Rightarrow> gostring \<Rightarrow> gostring
     \<Rightarrow> embed_error option \<times> db" where
  "ensureEmbedding embedSvc d now txt typ key =
     (case summaryId d typ key of
        None \<Rightarrow> (Some SummaryNotFound, d)
      | Some sid \<Rightarrow>
          if hasEmbedding d sid then (None, d)
          else
            case embedSvc txt of
              None \<Rightarrow> (Some EmbeddingRequestFailed, d)
            | Some vec \<Rightarrow>
                (None,
                 d\<lparr>embeddings := embeddings d @
                     [\<lparr>e_summary_id = sid, e_dim = int (length vec), e_vec = vec,
                       e_l2 = l2norm vec, e_created_at = rfc3339 now\<rparr>]\<rparr>))"

text \<open>
  The end of \<open>ensureWeekly\<close> and of \<open>ensureMonthly\<close> (the two are the same text), after
  \<open>upsertSummary\<close> has returned \<open>summaryID\<close>: the drift guard and the embedding step.
  \<open>fetched\<close> is the vector decoded from the guard's own request to the embedding service
  (\<open>None\<close> when the request or the decoding fails); \<open>typ\<close> is \<open>weekly\<close> or \<open>monthly\<close>.
\<close>

definition driftGuardAndEmbed ::
  "(gostring \<Rightarrow> float64 list option) \<Rightarrow> float64 list option \<Rightarrow> db \<Rightarrow> gotime \<Rightarrow> int \<Rightarrow> gostring
     \<Rightarrow> gostring \<Rightarrow> gostring \<Rightarrow> db" where
  "driftGuardAndEmbed embedSvc fetched d now summaryID indexText typ key =
     (case fetched of
        None \<Rightarrow> snd (ensureEmbedding embedSvc d now indexText typ key)
      | Some vec \<Rightarrow>
          if CheckEmbeddingDrift d summaryID vec = Some BLOCK then d
          else snd (ensureEmbedding embedSvc (saveEmbeddingHistory d now summaryID vec) now
                      indexText typ key))"

section \<open>Regenerating a summary\<close>

text \<open>\<open>summaryExists\<close>: \<open>SELECT 1 FROM summaries WHERE type=? AND period_key=? LIMIT 1\<close>.\<close>

definition summaryExists :: "db \<Rightarrow> gostring \<Rightarrow> gostring \<Rightarrow> bool" where
  "summaryExists d typ key \<longleftrightarrow>
     (\<exists>s \<in> set (summaries d). s_type s = typ \<and> s_period_key s = key)"

text \<open>
  The schema declares \<open>embeddings.summary_id\<close> and \<open>summary_embeddings_history.summary_id\<close>
  as foreign keys into \<open>summaries(id)\<close> with \<open>ON DELETE CASCADE\<close>, and the connection sets
  \<open>PRAGMA foreign_keys=ON\<close>.
\<close>

definition foreignKeysHold :: "db \<Rightarrow> bool" where
  "foreignKeysHold d \<longleftrightarrow>
     (\<forall>e \<in> set (embeddings d). e_summary_id e \<in> set (map s_id (summaries d))) \<and>
     (\<forall>h \<in> set (summary_embeddings_history d).
        eh_summary_id h \<in> set (map s_id (summaries d)))"

text \<open>
  The two statements of the force mode:
  \<open>DELETE FROM embeddings WHERE summary_id IN (SELECT id FROM summaries WHERE type=? AND
  period_key=?)\<close> and \<open>DELETE FROM summaries WHERE type=? AND period_key=?\<close>, the second with
  its cascade.
\<close>

definition deleteEmbeddingsOfSummary :: "db \<Rightarrow> gostring \<Rightarrow> gostring \<Rightarrow> db" where
  "deleteEmbeddingsOfSummary d typ key =
     d\<lparr>embeddings :=
         filter (\<lambda>e. e_summary_id e \<notin>
                        set (map s_id (filter (\<lambda>s. s_type s = typ \<and> s_period_key s = key)
                                         (summaries d))))
           (embeddings d)\<rparr>"

definition deleteSummary :: "db \<Rightarrow> gostring \<Rightarrow> gostring \<Rightarrow> db" where
  "deleteSummary d typ key =
     (let ids = map s_id (filter (\<lambda>s. s_type s = typ \<and> s_period_key s = key) (summaries d))
      in d\<lparr>summaries := filter (\<lambda>s. \<not> (s_type s = typ \<and> s_period_key s = key)) (summaries d),
           embeddings := filter (\<lambda>e. e_summary_id e \<notin> set ids) (embeddings d),
           summary_embeddings_history :=
             filter (\<lambda>h. eh_summary_id h \<notin> set ids) (summary_embeddings_history d)\<rparr>)"

text \<open>
  The block \<open>FORCE MODE\<close> of \<open>ensureDaily\<close>, \<open>ensureWeekly\<close> and \<open>ensureMonthly\<close>, as far as
  the database goes. The source discards the error of each statement; \<open>delEmbDone\<close> and
  \<open>delSumDone\<close> say whether the statement was carried out. A statement that fails changes
  nothing.
\<close>

definition forceDelete :: "bool \<Rightarrow> bool \<Rightarrow> db \<Rightarrow> gostring \<Rightarrow> gostring \<Rightarrow> db" where
  "forceDelete delEmbDone delSumDone d typ key =
     (let d1 = (if delEmbDone then deleteEmbeddingsOfSummary d typ key else d)
      in if delSumDone then deleteSummary d1 typ key else d1)"

text \<open>
  \<open>ensureDaily\<close> from its first statement to the value of \<open>dailyJSON\<close>, as far as the model
  calls go: the result is \<open>None\<close> when the function returns \<open>nil\<close> before it reads the log.
  The force block writes the database only, and this part reads the database only in
  \<open>summaryExists\<close>, when \<open>force\<close> is false. The log file is absent (\<open>os.Stat\<close> fails),
  unreadable (\<open>os.ReadFile\<close> fails) or a byte slice.
\<close>

datatype log_file = LogMissing | LogUnreadable | LogBytes bytes

definition ensureDailyJSON ::
  "(prompt \<Rightarrow> gostring option) \<Rightarrow> (gostring \<Rightarrow> bool) \<Rightarrow> db \<Rightarrow> log_file \<Rightarrow> gostring \<Rightarrow> int \<Rightarrow> bool
     \<Rightarrow> (daily_error + gostring option) \<times> prompt list" where
  "ensureDailyJSON llm valid d logFile date maxDailyJSONLBytes force =
     (if \<not> force \<and> summaryExists d (S ''daily'') date then (Inr None, [])
      else
        case logFile of
          LogMissing \<Rightarrow> (Inr None, [])
        | LogUnreadable \<Rightarrow> (Inl ReadFailed, [])
        | LogBytes rawAll \<Rightarrow>
            if length rawAll = 0 then (Inr None, [])
            else
              (case dailyJSONFromRaw llm valid date rawAll maxDailyJSONLBytes of
                 (Inl e, sent) \<Rightarrow> (Inl e, sent)
               | (Inr j, sent) \<Rightarrow> (Inr (Some j), sent)))"

text \<open>
  \<open>ensureWeekly\<close> and \<open>ensureMonthly\<close> are the same text but for the type, the names of the
  period and the files they read. The steps between the idempotent check and
  \<open>INDEX + DB\<close> read files, call the chat model and write the summary file; they do not
  write the database, and their outcome is a parameter: nothing to summarise (the
  function returns \<open>nil\<close>), an error, or the JSON, its index text, the two dates of the
  period and the path of the file.
\<close>

record generated =
  gen_json :: gostring
  gen_index_text :: gostring
  gen_start :: gostring
  gen_end :: gostring
  gen_path :: gostring

datatype generation = NoInput | Refused | Generated generated

datatype rollup_error = GenerationRefused

definition ensureRollup ::
  "gostring \<Rightarrow> (gostring \<Rightarrow> float64 list option) \<Rightarrow> float64 list option \<Rightarrow> generation \<Rightarrow> bool \<Rightarrow> bool
     \<Rightarrow> db \<Rightarrow> gotime \<Rightarrow> gostring \<Rightarrow> bool \<Rightarrow> rollup_error option \<times> db" where
  "ensureRollup typ embedSvc fetched gen delEmbDone delSumDone d now key force =
     (let d1 = (if force then forceDelete delEmbDone delSumDone d typ key else d) in
      if \<not> force \<and> summaryExists d1 typ key then (None, d1)
      else
        case gen of
          NoInput \<Rightarrow> (None, d1)
        | Refused \<Rightarrow> (Some GenerationRefused, d1)
        | Generated g \<Rightarrow>
            (case upsertSummary d1 now typ key (gen_start g) (gen_end g) (gen_json g)
                    (gen_index_text g) (gen_path g) of
               (summaryID, d2) \<Rightarrow>
                 (None,
                  driftGuardAndEmbed embedSvc fetched d2 now summaryID (gen_index_text g) typ
                    key)))"

definition ensureWeekly ::
  "(gostring \<Rightarrow> float64 list option) \<Rightarrow> float64 list option \<Rightarrow> generation \<Rightarrow> bool \<Rightarrow> bool
     \<Rightarrow> db \<Rightarrow> gotime \<Rightarrow> gostring \<Rightarrow> bool \<Rightarrow> rollup_error option \<times> db" where
  "ensureWeekly = ensureRollup (S ''weekly'')"

definition ensureMonthly ::
  "(gostring \<Rightarrow> float64 list option) \<Rightarrow> float64 list option \<Rightarrow> generation \<Rightarrow> bool \<Rightarrow> bool
     \<Rightarrow> db \<Rightarrow> gotime \<Rightarrow> gostring \<Rightarrow> bool \<Rightarrow> rollup_error option \<times> db" where
  "ensureMonthly = ensureRollup (S ''monthly'')"

section \<open>Pending fact groups\<close>

definition ListPendingFacts :: "db \<Rightarrow> int \<Rightarrow> pending_fact list" where
  "ListPendingFacts d limit0 =
     (let limit = (if limit0 \<le> 0 then 50 else limit0) in
      take (nat limit)
        (sortSliceStable (\<lambda>a b. strLess (pf_created_at b) (pf_created_at a))
           (filter (\<lambda>p. pf_status p = S ''pending'') (pending_facts d))))"

record pendingVec =
  pv_v :: "float64 list"
  pv_l2 :: float64

record grp =
  g_id :: gostring
  g_rep :: pending_fact
  g_repV :: pendingVec
  g_items :: "pending_fact list"

record PendingFactGroup =
  GroupID :: gostring
  Rep :: pending_fact
  Items :: "pending_fact list"
  Size :: int

definition pendingClusterThreshold :: float64 where
  "pendingClusterThreshold = Fin 0.88"

definition getPendingFactEmbedding :: "db \<Rightarrow> int \<Rightarrow> (int \<times> float64 list \<times> float64) option" where
  "getPendingFactEmbedding d pendingFactID =
     (if pendingFactID \<le> 0 then None
      else case find (\<lambda>e. pe_pending_fact_id e = pendingFactID) (pending_fact_embeddings d) of
             None \<Rightarrow> None
           | Some e \<Rightarrow>
               if pe_dim e \<le> 0 \<or> length (pe_vec e) = 0 \<or> feq (pe_l2 e) (Fin 0) then None
               else Some (pe_dim e, pe_vec e, pe_l2 e))"

definition upsertPendingFactEmbedding :: "db \<Rightarrow> int \<Rightarrow> float64 list \<Rightarrow> float64 \<Rightarrow> gostring \<Rightarrow> db" where
  "upsertPendingFactEmbedding d pendingFactID vec l2 createdAt =
     (if pendingFactID \<le> 0 \<or> length vec = 0 \<or> feq l2 (Fin 0) then d
      else d\<lparr>pending_fact_embeddings :=
               filter (\<lambda>e. pe_pending_fact_id e \<noteq> pendingFactID) (pending_fact_embeddings d) @
                 [\<lparr>pe_pending_fact_id = pendingFactID, pe_dim = int (length vec), pe_vec = vec,
                   pe_l2 = l2, pe_created_at = createdAt\<rparr>]\<rparr>)"

definition decodeVecBlob :: "float64 list \<Rightarrow> int \<Rightarrow> float64 list" where
  "decodeVecBlob blob ndim = (if ndim \<le> 0 \<or> int (length blob) < ndim then [] else take (nat ndim) blob)"

definition cosine :: "float64 list \<Rightarrow> float64 \<Rightarrow> float64 list \<Rightarrow> float64 \<Rightarrow> float64" where
  "cosine a aL2 b bL2 =
     (if length a = 0 \<or> length a \<noteq> length b \<or> feq aL2 (Fin 0) \<or> feq bL2 (Fin 0) then Fin 0
      else fdiv (fold (\<lambda>(x, y) s. fadd s (fmul x y)) (zip a b) (Fin 0)) (fmul aL2 bL2))"

text \<open>
  The closure \<open>ensureVec\<close>: the map \<open>vecs\<close> (an association list) and the database are
  the state it reads and writes.
\<close>

definition ensureVec ::
  "(gostring \<Rightarrow> float64 list option) \<Rightarrow> gostring \<Rightarrow> pending_fact \<Rightarrow> (int \<times> pendingVec) list \<times> db
     \<Rightarrow> pendingVec \<times> (int \<times> pendingVec) list \<times> db" where
  "ensureVec embedSvc now p st =
     (case map_of (fst st) (pf_id p) of
        Some pv \<Rightarrow> (pv, st)
      | None \<Rightarrow>
          (case getPendingFactEmbedding (snd st) (pf_id p) of
             Some (ndim, blob, l2) \<Rightarrow>
               (let pv = \<lparr>pv_v = decodeVecBlob blob ndim, pv_l2 = l2\<rparr>
                in (pv, (pf_id p, pv) # fst st, snd st))
           | None \<Rightarrow>
               (case embedQueryText embedSvc (pf_fact p) of
                  Some (vec, l2n) \<Rightarrow>
                    if length vec > 0 \<and> fgt l2n (Fin 0) then
                      (let pv = \<lparr>pv_v = vec, pv_l2 = l2n\<rparr>
                       in (pv, (pf_id p, pv) # fst st,
                           upsertPendingFactEmbedding (snd st) (pf_id p) vec l2n now))
                    else
                      (let pv = \<lparr>pv_v = [], pv_l2 = Fin 0\<rparr>
                       in (pv, (pf_id p, pv) # fst st, snd st))
                | None \<Rightarrow>
                    (let pv = \<lparr>pv_v = [], pv_l2 = Fin 0\<rparr>
                     in (pv, (pf_id p, pv) # fst st, snd st)))))"

text \<open>The fast path: the first group whose representative has the item's non-empty key.\<close>

fun mergeByKey :: "pending_fact \<Rightarrow> grp list \<Rightarrow> grp list option" where
  "mergeByKey it [] = None"
| "mergeByKey it (g # gs) =
     (if pf_fact_key (g_rep g) \<noteq> [] \<and> pf_fact_key it \<noteq> []
         \<and> pf_fact_key (g_rep g) = pf_fact_key it
      then Some (g\<lparr>g_items := g_items g @ [it]\<rparr> # gs)
      else map_option ((#) g) (mergeByKey it gs))"

text \<open>The search for the most similar representative: \<open>bestIdx\<close> (\<open>None\<close> for -1) and \<open>bestSim\<close>.\<close>

fun bestGroup :: "pendingVec \<Rightarrow> grp list \<Rightarrow> nat \<Rightarrow> nat option \<times> float64 \<Rightarrow> nat option \<times> float64" where
  "bestGroup pv [] gi best = best"
| "bestGroup pv (g # gs) gi best =
     (if length (pv_v (g_repV g)) = 0 then bestGroup pv gs (gi + 1) best
      else
        let sim = cosine (pv_v pv) (pv_l2 pv) (pv_v (g_repV g)) (pv_l2 (g_repV g)) in
        if fgt sim (snd best) then bestGroup pv gs (gi + 1) (Some gi, sim)
        else bestGroup pv gs (gi + 1) best)"

definition newGroup :: "nat \<Rightarrow> pending_fact \<Rightarrow> pendingVec \<Rightarrow> grp" where
  "newGroup gid it pv =
     \<lparr>g_id = S ''g'' @ itoa64 (int gid), g_rep = it, g_repV = pv, g_items = [it]\<rparr>"

text \<open>The loop over the items; the state is \<open>groups\<close>, \<open>gid\<close>, \<open>vecs\<close> and the database.\<close>

fun groupLoop ::
  "(gostring \<Rightarrow> float64 list option) \<Rightarrow> gostring \<Rightarrow> pending_fact list
     \<Rightarrow> grp list \<times> nat \<times> (int \<times> pendingVec) list \<times> db
     \<Rightarrow> grp list \<times> nat \<times> (int \<times> pendingVec) list \<times> db" where
  "groupLoop embedSvc now [] st = st"
| "groupLoop embedSvc now (it # items) (groups, gid, vst) =
     (case ensureVec embedSvc now it vst of
        (pv, vst1) \<Rightarrow>
          (case mergeByKey it groups of
             Some groups1 \<Rightarrow> groupLoop embedSvc now items (groups1, gid, vst1)
           | None \<Rightarrow>
               if length (pv_v pv) = 0 then
                 groupLoop embedSvc now items (groups @ [newGroup (gid + 1) it pv], gid + 1, vst1)
               else
                 (case bestGroup pv groups 0 (None, Fin 0) of
                    (Some bestIdx, bestSim) \<Rightarrow>
                      if fge bestSim pendingClusterThreshold then
                        groupLoop embedSvc now items
                          (groups[bestIdx := (groups ! bestIdx)\<lparr>g_items :=
                              g_items (groups ! bestIdx) @ [it]\<rparr>], gid, vst1)
                      else
                        groupLoop embedSvc now items
                          (groups @ [newGroup (gid + 1) it pv], gid + 1, vst1)
                  | (None, _) \<Rightarrow>
                      groupLoop embedSvc now items
                        (groups @ [newGroup (gid + 1) it pv], gid + 1, vst1))))"

definition ListPendingFactGroups ::
  "(gostring \<Rightarrow> float64 list option) \<Rightarrow> gostring \<Rightarrow> db \<Rightarrow> int \<Rightarrow> PendingFactGroup list \<times> db" where
  "ListPendingFactGroups embedSvc now d limitArg =
     (let items0 = ListPendingFacts d limitArg in
      if length items0 = 0 then ([], d)
      else
        let items = sortSliceStable
                      (\<lambda>a b. if pf_confidence a \<noteq> pf_confidence b
                              then pf_confidence a > pf_confidence b
                              else strLess (pf_created_at b) (pf_created_at a)) items0
        in case groupLoop embedSvc now items ([], 0, [], d) of
             (groups, _, _, d') \<Rightarrow>
               (map (\<lambda>g.
                   let sorted = sortSliceStable
                                  (\<lambda>a b. if pf_confidence a \<noteq> pf_confidence b
                                          then pf_confidence a > pf_confidence b
                                          else strLess (pf_fact a) (pf_fact b)) (g_items g)
                   in \<lparr>GroupID = g_id g, Rep = g_rep g, Items = sorted,
                        Size = int (length sorted)\<rparr>)
                  (sortSliceStable
                     (\<lambda>a b. if length (g_items a) \<noteq> length (g_items b)
                             then length (g_items a) > length (g_items b)
                             else pf_confidence (g_rep a) > pf_confidence (g_rep b)) groups),
                d'))"


section \<open>Services and inputs used in the examples\<close>





text \<open>An embedding service that is down, a clock, and the empty database.\<close>

definition noEmbedding :: "gostring \<Rightarrow> float64 list option" where
  "noEmbedding txt = None"

definition clock0 :: gotime where
  "clock0 = \<lparr>rfc3339 = S ''2025-01-01T10:00:00+08:00'', ymd = S ''2025-01-01''\<rparr>"

definition emptyDB :: db where
  "emptyDB = \<lparr>summaries = [], embeddings = [], summary_embeddings_history = [], user_facts = [],
     user_facts_history = [], user_fact_conflicts = [], pending_facts = [],
     pending_fact_embeddings = [], summaries_seq = 0\<rparr>"

text \<open>
  The two facts of the spec's slot-conflict scenario: \<open>factLiuNa\<close> reads "Nana's real name
  is Liu Na" (with the possessive particle), \<open>factWangNa\<close> reads "Nana real name is Wang Na".
\<close>

definition factLiuNa :: gostring where
  "factLiuNa = [0x5A1C, 0x5A1C, 0x7684, 0x771F, 0x540D, 0x662F, 0x5218, 0x5A1C]"

definition factWangNa :: gostring where
  "factWangNa = [0x5A1C, 0x5A1C, 0x771F, 0x540D, 0x662F, 0x738B, 0x5A1C]"

definition keyLiuNa :: gostring where
  "keyLiuNa = S ''subject:'' @ [0x5A1C, 0x5A1C, 0x7684, 0x771F, 0x540D]"

definition keyWangNa :: gostring where
  "keyWangNa = S ''subject:'' @ [0x5A1C, 0x5A1C, 0x771F, 0x540D]"

definition keyMailbox :: gostring where
  "keyMailbox = S ''subject:'' @ [0x6211, 0x7684, 0x90AE, 0x7BB1]"

definition rowLiuNa :: user_fact where
  "rowLiuNa = \<lparr>uf_fact = factLiuNa, uf_fact_key = keyLiuNa, uf_is_active = True,
     uf_created_at = rfc3339 clock0, uf_updated_at = rfc3339 clock0\<rparr>"

definition dbLiuNa :: db where
  "dbLiuNa = emptyDB\<lparr>user_facts := [rowLiuNa]\<rparr>"

definition slotNanaName :: gostring where
  "slotNanaName = S ''slot:sub:'' @ [0x5A1C, 0x5A1C] @ S ''|rel:name''"

definition slotMyEmail :: gostring where
  "slotMyEmail = S ''slot:sub:'' @ [0x6211] @ S ''|rel:email''"

text \<open>A database whose only pending row, with id 1, has already been accepted.\<close>

definition dbPendingAccepted :: db where
  "dbPendingAccepted =
     emptyDB\<lparr>pending_facts :=
       [\<lparr>pf_id = 1, pf_fact = factWangNa, pf_fact_key = keyWangNa, pf_confidence = 0.95,
         pf_source_type = S ''daily'', pf_source_key = S ''2025-01-01'',
         pf_status = S ''accepted'', pf_created_at = rfc3339 clock0,
         pf_updated_at = rfc3339 clock0\<rparr>]\<rparr>"

text \<open>
  A database reached by the operations themselves: \<open>factWangNa\<close> is remembered, then a
  mailbox fact; a second mailbox fact conflicts with the first; the conflict is resolved
  by replacement with the text \<open>factLiuNa\<close>, which \<open>ResolveFactConflictReplace\<close> stores under
  the key of the conflict.
\<close>

definition factMailA :: gostring where
  "factMailA = [0x6211, 0x7684, 0x90AE, 0x7BB1, 0x662F] @ S ''a@b.c''"

definition factMailB :: gostring where
  "factMailB = [0x6211, 0x7684, 0x90AE, 0x7BB1, 0x662F] @ S ''x@y.z''"

definition dbTwoOccupants :: db where
  "dbTwoOccupants =
     (let d1 = snd (ProposeRememberFact noEmbedding clock0 emptyDB factWangNa [] [] clock0);
          d2 = snd (ProposeRememberFact noEmbedding clock0 d1 factMailA [] [] clock0);
          d3 = snd (ProposeRememberFact noEmbedding clock0 d2 factMailB [] [] clock0)
      in snd (ResolveFactConflictReplace noEmbedding clock0 d3 1 factLiuNa clock0))"

definition rowMailboxLiuNa :: user_fact where
  "rowMailboxLiuNa = \<lparr>uf_fact = factLiuNa, uf_fact_key = keyMailbox, uf_is_active = True,
     uf_created_at = rfc3339 clock0, uf_updated_at = rfc3339 clock0\<rparr>"

definition rowWangNa :: user_fact where
  "rowWangNa = \<lparr>uf_fact = factWangNa, uf_fact_key = keyWangNa, uf_is_active = True,
     uf_created_at = rfc3339 clock0, uf_updated_at = rfc3339 clock0\<rparr>"




text \<open>
  Retrieval: an embedding service that maps every text to the vector (1, 0), a
  cross-encoder that gives the score 0.1 to every document, a text extractor that is not
  reached for facts, a configuration whose rerank mode is \<open>always\<close>, and a database with
  two indexed facts whose vectors have the cosines 1 and 0.8 with (1, 0); then the two
  hits that the search returns there.
\<close>

definition embedUnitX :: "gostring \<Rightarrow> float64 list option" where
  "embedUnitX t = Some [Fin 1, Fin 0]"

definition rerankLow :: "gostring \<Rightarrow> gostring list \<Rightarrow> float64 list option" where
  "rerankLow q docs = Some (replicate (length docs) (Fin 0.1))"

definition humanTextNone :: "gostring \<Rightarrow> gostring" where
  "humanTextNone js = []"

definition cfgRerankAlways :: Config where
  "cfgRerankAlways = \<lparr>SearchTopK = 5, SearchMinScore = Fin 0.5, SearchMinStrong = Fin 0.6,
     SearchMinGap = Fin 0.05, EnableRerank = True, RerankForce = False,
     RerankMode = S ''always'', RerankURL = S ''http://localhost:8090/rerank'',
     RerankTopN = 10, RerankMinBatch = 2\<rparr>"

definition dbTwoIndexedFacts :: db where
  "dbTwoIndexedFacts =
     emptyDB\<lparr>summaries :=
       [\<lparr>s_id = 1, s_type = S ''fact'', s_period_key = S ''fact:'' @ keyWangNa,
         s_start_date = ymd clock0, s_end_date = ymd clock0, s_json = [], s_text = factWangNa,
         s_source_path = S ''remember'', s_created_at = rfc3339 clock0\<rparr>,
        \<lparr>s_id = 2, s_type = S ''fact'', s_period_key = S ''fact:'' @ keyMailbox,
         s_start_date = ymd clock0, s_end_date = ymd clock0, s_json = [], s_text = factMailA,
         s_source_path = S ''remember'', s_created_at = rfc3339 clock0\<rparr>],
      embeddings :=
       [\<lparr>e_summary_id = 1, e_dim = 2, e_vec = [Fin 1, Fin 0], e_l2 = Fin 1,
         e_created_at = rfc3339 clock0\<rparr>,
        \<lparr>e_summary_id = 2, e_dim = 2, e_vec = [Fin 0.8, Fin 0.6], e_l2 = Fin 1,
         e_created_at = rfc3339 clock0\<rparr>],
      summaries_seq := 2\<rparr>"

definition hitWangNa :: SearchHit where
  "hitWangNa = \<lparr>Score = Fin 0.1, EmbScore = Fin 1, Type = S ''fact'',
     Date = S ''fact:'' @ keyWangNa, Text = factWangNa\<rparr>"

definition hitMailA :: SearchHit where
  "hitMailA = \<lparr>Score = Fin 0.1, EmbScore = Fin 0.8, Type = S ''fact'',
     Date = S ''fact:'' @ keyMailbox, Text = factMailA\<rparr>"



text \<open>
  Three pending facts: \<open>pendingB\<close> and \<open>pendingC\<close> come from two sources and have the same
  key. The first two have stored embeddings, both (1, 0); the third has none.
\<close>

definition pendingA :: pending_fact where
  "pendingA = \<lparr>pf_id = 1, pf_fact = factMailA, pf_fact_key = keyMailbox, pf_confidence = 0.9,
     pf_source_type = S ''daily'', pf_source_key = S ''2025-01-01'', pf_status = S ''pending'',
     pf_created_at = rfc3339 clock0, pf_updated_at = rfc3339 clock0\<rparr>"

definition pendingB :: pending_fact where
  "pendingB = \<lparr>pf_id = 2, pf_fact = factWangNa, pf_fact_key = keyWangNa, pf_confidence = 0.8,
     pf_source_type = S ''daily'', pf_source_key = S ''2025-01-01'', pf_status = S ''pending'',
     pf_created_at = rfc3339 clock0, pf_updated_at = rfc3339 clock0\<rparr>"

definition pendingC :: pending_fact where
  "pendingC = \<lparr>pf_id = 3, pf_fact = factWangNa, pf_fact_key = keyWangNa, pf_confidence = 0.7,
     pf_source_type = S ''realtime_implicit'', pf_source_key = S ''2025-01-01'',
     pf_status = S ''pending'', pf_created_at = rfc3339 clock0, pf_updated_at = rfc3339 clock0\<rparr>"

definition dbThreePending :: db where
  "dbThreePending =
     emptyDB\<lparr>pending_facts := [pendingA, pendingB, pendingC],
      pending_fact_embeddings :=
       [\<lparr>pe_pending_fact_id = 1, pe_dim = 2, pe_vec = [Fin 1, Fin 0], pe_l2 = Fin 1,
         pe_created_at = rfc3339 clock0\<rparr>,
        \<lparr>pe_pending_fact_id = 2, pe_dim = 2, pe_vec = [Fin 1, Fin 0], pe_l2 = Fin 1,
         pe_created_at = rfc3339 clock0\<rparr>]\<rparr>"


section \<open>Properties\<close>

subsection \<open>Evaluation rules\<close>

lemmas str_defs =
  TrimSpace_def TrimRightFunc_def TrimLeftFunc_def isSpace_def HasPrefix_def HasSuffix_def
  TrimPrefix_def TrimSuffix_def Contains_def TrimRight_def Trim_def S_def ToLower_def
  toLowerRune_def Fields_def ReplaceAll_def

lemmas intent_defs =
  maybeAutoProposePendingFromUserInput_def parseAutoFactsIntent_def rememberPrefixes_def
  forgetPrefixes_def looksLikeSelfStatement_def hasAttributeMarker_def

subsection \<open>The implicit-fact heuristic\<close>

text \<open>
  Claim C7, as the code has it. \<open>maybeAutoProposePendingFromUserInput\<close> hands a fact to
  \<open>ProposePendingRememberFact\<close> exactly when the trimmed input does not start with \<open>/\<close>, is
  not an explicit remember or forget intent, looks like a first-person self-statement,
  contains an attribute marker, and has at least 4 and at most 140 runes; the fact handed
  over is the trimmed input without its trailing full stops and exclamation marks. The
  lower bound is 4 inclusive: the guard is \<open>len < 4 || len > 140\<close>.
\<close>

theorem C7_implicit_proposal_conditions:
  "maybeAutoProposePendingFromUserInput input =
     (let text = TrimSpace input in
      if \<not> HasPrefix text (S ''/'') \<and> parseAutoFactsIntent text = None \<and>
         looksLikeSelfStatement text \<and> hasAttributeMarker text \<and>
         4 \<le> length text \<and> length text \<le> 140
      then Some (TrimSpace (TrimRight text [0x3002, 0x2E, 0x21, 0xFF01]))
      else None)"
  by (cases "parseAutoFactsIntent (TrimSpace input)")
     (auto simp: maybeAutoProposePendingFromUserInput_def Let_def)

text \<open>The theorem at the input U+6211 U+6700 U+559C U+6B22 U+7EA2 U+8272 (six runes): the fact is proposed.\<close>

theorem C7_implicit_proposal_witness:
  "maybeAutoProposePendingFromUserInput [0x6211, 0x6700, 0x559C, 0x6B22, 0x7EA2, 0x8272] =
     Some [0x6211, 0x6700, 0x559C, 0x6B22, 0x7EA2, 0x8272]"
  using C7_implicit_proposal_conditions [of "[0x6211, 0x6700, 0x559C, 0x6B22, 0x7EA2, 0x8272]"]
  by (simp add: intent_defs str_defs)

text \<open>
  The claim as stated asks for more than 4 runes. The input U+6211 U+662F U+8001 U+5E08
  has exactly 4 and is proposed.
\<close>

theorem C7_four_runes_counterexample:
  "length [0x6211, 0x662F, 0x8001, 0x5E08 :: rune] = 4 \<and>
   maybeAutoProposePendingFromUserInput [0x6211, 0x662F, 0x8001, 0x5E08] =
     Some [0x6211, 0x662F, 0x8001, 0x5E08]"
  by (simp add: intent_defs str_defs)

subsection \<open>Lines, joins and trimming\<close>






lemma TrimRightFunc_Nil [simp]: "TrimRightFunc P [] = []"
  by (simp add: TrimRightFunc_def)

lemma TrimRightFunc_eq_Nil: "TrimRightFunc P s = [] \<longleftrightarrow> (\<forall>x \<in> set s. P x)"
  by (simp add: TrimRightFunc_def)

lemma TrimRightFunc_all: "\<forall>x \<in> set s. P x \<Longrightarrow> TrimRightFunc P s = []"
  by (simp add: TrimRightFunc_eq_Nil)

lemma TrimRightFunc_Cons:
  "TrimRightFunc P (c # cs) = (if TrimRightFunc P cs = [] \<and> P c then [] else c # TrimRightFunc P cs)"
proof (cases "\<forall>x \<in> set cs. P x")
  case True
  then have "dropWhile P (rev cs @ [c]) = dropWhile P [c]" "dropWhile P (rev cs) = []"
    by (simp_all add: dropWhile_append)
  then show ?thesis by (simp add: TrimRightFunc_def)
next
  case False
  then have "dropWhile P (rev cs @ [c]) = dropWhile P (rev cs) @ [c]" "dropWhile P (rev cs) \<noteq> []"
    by (simp_all add: dropWhile_append)
  then show ?thesis by (simp add: TrimRightFunc_def)
qed

lemma Trim_commute:
  "TrimRightFunc P (TrimLeftFunc P s) = TrimLeftFunc P (TrimRightFunc P s)"
proof (induction s)
  case Nil show ?case by (simp add: TrimLeftFunc_def)
next
  case (Cons c cs)
  show ?case
  proof (cases "P c")
    case True
    show ?thesis
    proof (cases "TrimRightFunc P cs = []")
      case nil: True
      then have "\<forall>x \<in> set (dropWhile P cs). P x"
        by (auto simp: TrimRightFunc_eq_Nil dest: set_dropWhileD)
      then have "TrimRightFunc P (dropWhile P cs) = []"
        by (rule TrimRightFunc_all)
      with nil True show ?thesis
        by (simp add: TrimLeftFunc_def TrimRightFunc_Cons)
    next
      case False
      with True Cons show ?thesis
        by (simp add: TrimLeftFunc_def TrimRightFunc_Cons)
    qed
  next
    case False
    then show ?thesis by (simp add: TrimLeftFunc_def TrimRightFunc_Cons)
  qed
qed


lemma TrimSpace_Nil [simp]: "TrimSpace [] = []"
  by (simp add: TrimSpace_def TrimLeftFunc_def)













subsection \<open>Assistant text sanitisation\<close>





subsection \<open>Chunking the raw day log\<close>

lemma encLines_Nil [simp]: "encLines [] = []"
  by (simp add: encLines_def)


lemma encLines_eq_Nil [simp]: "encLines g = [] \<longleftrightarrow> g = []"
  by (cases g) (simp_all add: encLines_def)










subsection \<open>Fact keys\<close>

lemma TrimSpace_idem [simp]: "TrimSpace (TrimSpace s) = TrimSpace s"
proof -
  have l: "TrimLeftFunc isSpace (TrimLeftFunc isSpace x) = TrimLeftFunc isSpace x" for x
    by (simp add: TrimLeftFunc_def)
  have r: "TrimRightFunc isSpace (TrimRightFunc isSpace x) = TrimRightFunc isSpace x" for x
    by (simp add: TrimRightFunc_def)
  have "TrimSpace (TrimSpace s) =
      TrimRightFunc isSpace (TrimRightFunc isSpace (TrimLeftFunc isSpace (TrimLeftFunc isSpace s)))"
    unfolding TrimSpace_def by (simp only: Trim_commute)
  then show ?thesis by (simp add: l r TrimSpace_def)
qed

lemma TrimSpace_has_nonspace: "TrimSpace s \<noteq> [] \<Longrightarrow> \<exists>c \<in> set (TrimSpace s). \<not> isSpace c"
proof (rule ccontr)
  assume ne: "TrimSpace s \<noteq> []" and "\<not> (\<exists>c \<in> set (TrimSpace s). \<not> isSpace c)"
  then have "\<forall>c \<in> set (TrimSpace s). isSpace c" by blast
  then have "TrimLeftFunc isSpace (TrimSpace s) = []" by (simp add: TrimLeftFunc_def)
  then have "TrimSpace (TrimSpace s) = []" by (simp add: TrimSpace_def)
  with ne show False by simp
qed

lemma ExtractFactTriple_trim [simp]: "ExtractFactTriple (TrimSpace s) = ExtractFactTriple s"
  by (simp add: ExtractFactTriple_def)

lemma extractFactSubject_trim [simp]: "extractFactSubject (TrimSpace s) = extractFactSubject s"
  by (simp add: extractFactSubject_def)

lemma normalizeFactKey_trim [simp]: "normalizeFactKey (TrimSpace s) = normalizeFactKey s"
  by (simp add: normalizeFactKey_def)

lemma deriveFactKeyFromSubject_trim [simp]:
  "deriveFactKeyFromSubject (TrimSpace s) = deriveFactKeyFromSubject s"
  by (simp add: deriveFactKeyFromSubject_def Let_def)

lemma fieldsFrom_nonempty:
  "cur \<noteq> [] \<or> (\<exists>c \<in> set s. \<not> isSpace c) \<Longrightarrow>
     \<exists>x xs. fieldsFrom cur s = x # xs \<and> x \<noteq> []"
  by (induction s arbitrary: cur) auto

lemma Join_nonempty: "x \<noteq> [] \<Longrightarrow> Join (x # xs) sep \<noteq> []"
  by (cases xs) auto

lemma normalizeFactKey_nonempty: "TrimSpace s \<noteq> [] \<Longrightarrow> normalizeFactKey s \<noteq> []"
proof -
  assume a: "TrimSpace s \<noteq> []"
  from TrimSpace_has_nonspace[OF a] fieldsFrom_nonempty[of "[]" "TrimSpace s"]
  obtain x xs where "Fields (TrimSpace s) = x # xs" "x \<noteq> []"
    unfolding Fields_def by blast
  then show ?thesis by (simp add: normalizeFactKey_def ToLower_def Join_nonempty)
qed

lemma S_Cons_nonempty [simp]: "S (c # cs) @ x \<noteq> []"
  by (simp add: S_def)

lemma deriveFactKeyFromSubject_nonempty:
  "TrimSpace s \<noteq> [] \<Longrightarrow> deriveFactKeyFromSubject s \<noteq> []"
  by (simp add: deriveFactKeyFromSubject_def Let_def normalizeFactKey_nonempty S_def)

lemma SlotKey_emptyTriple [simp]: "SlotKey emptyTriple = []"
  by (simp add: SlotKey_def emptyTriple_def)

lemma SlotKey_nonempty_text: "SlotKey (ExtractFactTriple s) \<noteq> [] \<Longrightarrow> TrimSpace s \<noteq> []"
  by (auto simp: ExtractFactTriple_def)

lemma fold_max_ge: "(a::int) \<le> fold max xs a"
proof (induction xs arbitrary: a)
  case Nil show ?case by simp
next
  case (Cons x xs)
  have "max x a \<le> fold max xs (max x a)" by (rule Cons)
  then show ?case by simp
qed

lemma fold_max_mem: "fold max xs (a::int) \<in> set (a # xs)"
proof (induction xs arbitrary: a)
  case Nil show ?case by simp
next
  case (Cons x xs)
  have "fold max xs (max x a) \<in> set (max x a # xs)" by (rule Cons)
  moreover have "max x a = x \<or> max x a = a" by (simp add: max_def)
  ultimately show ?case by auto
qed


lemma find_None_iff2: "find P xs = None \<longleftrightarrow> (\<forall>x \<in> set xs. \<not> P x)"
  by (induction xs) auto

lemma find_SomeD: "find P xs = Some x \<Longrightarrow> x \<in> set xs \<and> P x"
  by (induction xs) (auto split: if_splits)

lemma find_exists: "x \<in> set xs \<Longrightarrow> P x \<Longrightarrow> \<exists>y. find P xs = Some y"
  by (induction xs) auto

subsection \<open>Frame lemmas\<close>

lemma upsertSummary_frame:
  "upsertSummary d now typ key sd ed js txt src = (i, d') \<Longrightarrow>
     user_facts d' = user_facts d \<and> user_facts_history d' = user_facts_history d \<and>
     user_fact_conflicts d' = user_fact_conflicts d \<and> pending_facts d' = pending_facts d"
  by (auto simp: upsertSummary_def Let_def split: option.splits)

lemma upsertEmbeddingFromText_frame:
  "user_facts (upsertEmbeddingFromText embedSvc d now i txt) = user_facts d \<and>
   user_facts_history (upsertEmbeddingFromText embedSvc d now i txt) = user_facts_history d \<and>
   user_fact_conflicts (upsertEmbeddingFromText embedSvc d now i txt) = user_fact_conflicts d \<and>
   pending_facts (upsertEmbeddingFromText embedSvc d now i txt) = pending_facts d"
  by (auto simp: upsertEmbeddingFromText_def upsertEmbedding_def deleteEmbedding_def
      split: option.splits)

lemma syncFactToSearch_frame:
  "user_facts (syncFactToSearch embedSvc d now k c src) = user_facts d \<and>
   user_facts_history (syncFactToSearch embedSvc d now k c src) = user_facts_history d \<and>
   user_fact_conflicts (syncFactToSearch embedSvc d now k c src) = user_fact_conflicts d \<and>
   pending_facts (syncFactToSearch embedSvc d now k c src) = pending_facts d"
proof (cases "k = [] \<or> TrimSpace c = []")
  case True
  then show ?thesis by (auto simp: syncFactToSearch_def Let_def)
next
  case False
  obtain i d' where u: "upsertSummary d now (S ''fact'') (S ''fact:'' @ k) (ymd now) (ymd now) []
      (TrimSpace c) src = (i, d')" by (cases "upsertSummary d now (S ''fact'') (S ''fact:'' @ k) (ymd now) (ymd now) [] (TrimSpace c) src") auto
  from upsertSummary_frame[OF u] upsertEmbeddingFromText_frame[of embedSvc d' now i "TrimSpace c"]
  show ?thesis using False u by (simp add: syncFactToSearch_def Let_def)
qed

lemma removeFactFromSearch_frame:
  "user_facts (removeFactFromSearch d k r) = user_facts d \<and>
   user_facts_history (removeFactFromSearch d k r) = user_facts_history d \<and>
   user_fact_conflicts (removeFactFromSearch d k r) = user_fact_conflicts d \<and>
   pending_facts (removeFactFromSearch d k r) = pending_facts d"
  by (auto simp: removeFactFromSearch_def deleteEmbedding_def split: option.splits)

subsection \<open>Conflicts\<close>

lemma nextRowId_pos: "nextRowId ids > 0"
  using fold_max_ge[of 0 ids] by (simp add: nextRowId_def)

lemma createUserFactConflict_props:
  assumes "key \<noteq> []" "ex \<noteq> []" "prop \<noteq> []"
  shows "\<exists>cid d1 c. createUserFactConflict d key ex prop st sk when = (cid, d1) \<and> cid > 0 \<and>
     fc_id c = cid \<and> c \<in> set (user_fact_conflicts d1) \<and> fc_status c = S ''conflict'' \<and>
     fc_fact_key c = key \<and> fc_proposed_fact c = prop \<and>
     (user_fact_conflicts d1 = user_fact_conflicts d \<or>
      user_fact_conflicts d1 = user_fact_conflicts d @ [c]) \<and>
     d1 = d\<lparr>user_fact_conflicts := user_fact_conflicts d1\<rparr>"
proof -
  define matching where "matching = filter (\<lambda>c. fc_status c = S ''conflict'' \<and> fc_fact_key c = key
                                      \<and> fc_proposed_fact c = prop) (user_fact_conflicts d)"
  define newrow where "newrow = \<lparr>fc_id = nextRowId (map fc_id (user_fact_conflicts d)), fc_fact_key = key,
       fc_existing_fact = ex, fc_proposed_fact = prop, fc_proposed_source_type = st,
       fc_proposed_source_key = sk, fc_status = S ''conflict'',
       fc_created_at = rfc3339 when, fc_updated_at = rfc3339 when\<rparr>"
  have ins: "insertUserFactConflict d key ex prop st sk when =
      (fc_id newrow, d\<lparr>user_fact_conflicts := user_fact_conflicts d @ [newrow]\<rparr>)"
    by (simp add: insertUserFactConflict_def Let_def newrow_def)
  have insert_ok: "\<exists>cid d1 c. insertUserFactConflict d key ex prop st sk when = (cid, d1) \<and> cid > 0 \<and>
     fc_id c = cid \<and> c \<in> set (user_fact_conflicts d1) \<and> fc_status c = S ''conflict'' \<and>
     fc_fact_key c = key \<and> fc_proposed_fact c = prop \<and>
     (user_fact_conflicts d1 = user_fact_conflicts d \<or>
      user_fact_conflicts d1 = user_fact_conflicts d @ [c]) \<and>
     d1 = d\<lparr>user_fact_conflicts := user_fact_conflicts d1\<rparr>"
    unfolding ins using nextRowId_pos[of "map fc_id (user_fact_conflicts d)"]
    by (intro exI[of _ "fc_id newrow"] exI[of _ "d\<lparr>user_fact_conflicts := user_fact_conflicts d @ [newrow]\<rparr>"] exI[of _ newrow])
       (simp add: newrow_def)
  show ?thesis
  proof (cases "map fc_id matching")
    case Nil
    then show ?thesis using assms insert_ok
      by (simp add: createUserFactConflict_def matching_def[symmetric])
  next
    case (Cons i ids)
    show ?thesis
    proof (cases "fold max ids i > 0")
      case False
      then show ?thesis using assms insert_ok Cons
        by (simp add: createUserFactConflict_def matching_def[symmetric])
    next
      case True
      have "fold max ids i \<in> set (map fc_id matching)" using fold_max_mem[of ids i] Cons by simp
      then obtain c where c: "c \<in> set matching" "fc_id c = fold max ids i" by auto
      then have "c \<in> set (user_fact_conflicts d)" "fc_status c = S ''conflict''"
          "fc_fact_key c = key" "fc_proposed_fact c = prop"
        by (auto simp: matching_def)
      moreover have "createUserFactConflict d key ex prop st sk when = (fold max ids i, d)"
        using assms Cons True by (simp add: createUserFactConflict_def matching_def[symmetric])
      ultimately show ?thesis using True c(2)
        by (intro exI[of _ "fold max ids i"] exI[of _ d] exI[of _ c]) simp
    qed
  qed
qed


lemma appendUserFactHistory_append:
  "key \<noteq> [] \<Longrightarrow> txt \<noteq> [] \<Longrightarrow> st \<noteq> [] \<Longrightarrow>
   appendUserFactHistory d key txt st srcT srcK when 0 =
     d\<lparr>user_facts_history := user_facts_history d @ [historyRow d key txt st srcT srcK when]\<rparr>"
  by (simp add: appendUserFactHistory_def Let_def historyRow_def)

lemma historyRow_sel [simp]:
  "fh_fact_key (historyRow d key txt st srcT srcK when) = key"
  "fh_fact (historyRow d key txt st srcT srcK when) = txt"
  "fh_status (historyRow d key txt st srcT srcK when) = st"
  "fh_version (historyRow d key txt st srcT srcK when) = nextUserFactVersion d key"
  by (simp_all add: historyRow_def)

lemma S_conflict_nonempty [simp]: "S ''conflict'' \<noteq> []" "S ''active'' \<noteq> []" "S ''forgotten'' \<noteq> []"
  by (simp_all add: S_def)

lemma recordConflict_props:
  assumes "key \<noteq> []" "ex \<noteq> []" "content \<noteq> []"
  shows "\<exists>out d2 c h. recordConflict d key ex content st sk when = (out, d2) \<and>
     Status out = S ''conflict'' \<and> FactKey out = key \<and> Existing out = ex \<and>
     ConflictID out = fc_id c \<and> user_facts d2 = user_facts d \<and>
     c \<in> set (user_fact_conflicts d2) \<and> fc_status c = S ''conflict'' \<and>
     fc_fact_key c = key \<and> fc_proposed_fact c = content \<and>
     (user_fact_conflicts d2 = user_fact_conflicts d \<or>
      user_fact_conflicts d2 = user_fact_conflicts d @ [c]) \<and>
     user_facts_history d2 = user_facts_history d @ [h] \<and>
     fh_status h = S ''conflict'' \<and> fh_fact_key h = key \<and> fh_fact h = content \<and>
     pending_facts d2 = pending_facts d"
proof -
  from createUserFactConflict_props[OF assms, of d st sk "when"] obtain cid d1 c where
    c: "createUserFactConflict d key ex content st sk when = (cid, d1)" "cid > 0"
       "fc_id c = cid" "c \<in> set (user_fact_conflicts d1)" "fc_status c = S ''conflict''"
       "fc_fact_key c = key" "fc_proposed_fact c = content"
       "user_fact_conflicts d1 = user_fact_conflicts d \<or>
        user_fact_conflicts d1 = user_fact_conflicts d @ [c]"
       "d1 = d\<lparr>user_fact_conflicts := user_fact_conflicts d1\<rparr>"
    by blast
  define h where "h = historyRow d1 key content (S ''conflict'') st sk when"
  have h: "appendUserFactHistory d1 key content (S ''conflict'') st sk when 0 =
         d1\<lparr>user_facts_history := user_facts_history d1 @ [h]\<rparr>"
       "fh_fact_key h = key" "fh_fact h = content" "fh_status h = S ''conflict''"
    using appendUserFactHistory_append[OF assms(1) assms(3), of "S ''conflict''" d1 st sk "when"]
    by (simp_all add: h_def)
  have d1: "user_facts d1 = user_facts d" "user_facts_history d1 = user_facts_history d"
      "pending_facts d1 = pending_facts d"
    by (subst c(9), simp)+
  show ?thesis
    apply (rule exI[of _ "outcome (S ''conflict'') key cid ex"])
    apply (rule exI[of _ "d1\<lparr>user_facts_history := user_facts_history d1 @ [h]\<rparr>"])
    apply (rule exI[of _ c])
    apply (rule exI[of _ h])
    using c h d1 by (simp add: recordConflict_def Let_def outcome_def)
qed

lemma propose_slot_conflict:
  assumes e: "e \<in> set (user_facts d)" "uf_is_active e" "uf_fact_key e \<noteq> []"
    and slot: "SlotKey (ExtractFactTriple (uf_fact e)) \<noteq> []"
    and differ: "TrimSpace p \<noteq> TrimSpace (uf_fact e)"
    and same: "SlotKey (ExtractFactTriple p) = SlotKey (ExtractFactTriple (uf_fact e))"
    and nokey: "\<forall>r \<in> set (user_facts d). uf_is_active r \<longrightarrow>
                  uf_fact_key r \<noteq> deriveFactKeyFromSubject p"
    and only: "\<forall>r \<in> set (user_facts d).
                  uf_is_active r \<and> SlotKey (ExtractFactTriple (uf_fact r)) =
                    SlotKey (ExtractFactTriple (uf_fact e))
                  \<longrightarrow> uf_fact_key r = uf_fact_key e \<and> uf_fact r = uf_fact e"
  shows "proposeRememberFactWith d (TrimSpace p) st0 sk0 when =
           recordConflict d (uf_fact_key e) (uf_fact e) (TrimSpace p)
             (if st0 = [] then S ''remember'' else st0) (if sk0 = [] then ymd when else sk0) when"
proof -
  have pne: "TrimSpace p \<noteq> []" using slot same SlotKey_nonempty_text[of p] by simp
  have kne: "deriveFactKeyFromSubject p \<noteq> []" by (rule deriveFactKeyFromSubject_nonempty[OF pne])
  have bykey: "getActiveUserFactByKey d (deriveFactKeyFromSubject p) = None"
    using nokey kne by (auto simp: getActiveUserFactByKey_def find_None_iff2)
  obtain r where r: "find (\<lambda>r. uf_is_active r \<and> SlotKey (ExtractFactTriple (uf_fact r)) =
        SlotKey (ExtractFactTriple (uf_fact e))) (user_facts d) = Some r"
    using find_exists[of e "user_facts d" "\<lambda>r. uf_is_active r \<and> SlotKey (ExtractFactTriple (uf_fact r)) =
        SlotKey (ExtractFactTriple (uf_fact e))"] e by auto
  from find_SomeD[OF r] only have "uf_fact_key r = uf_fact_key e" "uf_fact r = uf_fact e" by auto
  with r slot have byslot: "getActiveUserFactBySlotKey d (SlotKey (ExtractFactTriple (uf_fact e))) =
      Some (uf_fact_key e, uf_fact e)"
    by (simp add: getActiveUserFactBySlotKey_def)
  show ?thesis
    using pne kne bykey byslot slot same differ
    by (simp add: proposeRememberFactWith_def Let_def)
qed



subsection \<open>Upserts and versions\<close>

lemma upsertUserFact_cases:
  assumes "key \<noteq> []"
  shows "user_facts (upsertUserFact d t key act now) =
     (if \<exists>r \<in> set (user_facts d). uf_fact_key r = key
      then map (touchRow t key act now) (user_facts d)
      else user_facts d @ [\<lparr>uf_fact = t, uf_fact_key = key, uf_is_active = act,
              uf_created_at = rfc3339 now, uf_updated_at = rfc3339 now\<rparr>])"
  using assms by (simp add: upsertUserFact_def)

lemma touchRow_key [simp]: "uf_fact_key (touchRow t key act now r) = uf_fact_key r"
  by (simp add: touchRow_def)

lemma touchRow_hit:
  "uf_fact_key r = key \<Longrightarrow>
     uf_fact (touchRow t key act now r) = t \<and> uf_is_active (touchRow t key act now r) = act"
  by (simp add: touchRow_def)

lemma upsertUserFact_all:
  assumes "key \<noteq> []" "r \<in> set (user_facts (upsertUserFact d t key act now))"
    "uf_fact_key r = key"
  shows "uf_fact r = t \<and> uf_is_active r = act"
proof (cases "\<exists>r \<in> set (user_facts d). uf_fact_key r = key")
  case True
  with assms(2) upsertUserFact_cases[OF assms(1), of d t act "now"]
  obtain r0 where r0: "r0 \<in> set (user_facts d)" "r = touchRow t key act now r0" by auto
  with assms(3) have "uf_fact_key r0 = key" by simp
  from touchRow_hit[OF this, of t act "now"] r0(2) show ?thesis by simp
next
  case False
  with assms(2) upsertUserFact_cases[OF assms(1), of d t act "now"]
  have "r \<in> set (user_facts d) \<or> r = \<lparr>uf_fact = t, uf_fact_key = key, uf_is_active = act,
              uf_created_at = rfc3339 now, uf_updated_at = rfc3339 now\<rparr>" by auto
  then show ?thesis
  proof
    assume "r \<in> set (user_facts d)"
    with False assms(3) show ?thesis by blast
  next
    assume "r = \<lparr>uf_fact = t, uf_fact_key = key, uf_is_active = act,
              uf_created_at = rfc3339 now, uf_updated_at = rfc3339 now\<rparr>"
    then show ?thesis by simp
  qed
qed

lemma upsertUserFact_ex:
  assumes "key \<noteq> []"
  shows "\<exists>r \<in> set (user_facts (upsertUserFact d t key act now)). uf_fact_key r = key"
proof (cases "\<exists>r \<in> set (user_facts d). uf_fact_key r = key")
  case True
  then obtain r where r: "r \<in> set (user_facts d)" "uf_fact_key r = key" by blast
  have "touchRow t key act now r \<in> set (map (touchRow t key act now) (user_facts d))"
    using r(1) by simp
  moreover have "uf_fact_key (touchRow t key act now r) = key" using r(2) by simp
  ultimately show ?thesis using True upsertUserFact_cases[OF assms, of d t act "now"] by metis
next
  case False
  then show ?thesis using upsertUserFact_cases[OF assms, of d t act "now"] by simp
qed

lemma upsertUserFact_history [simp]:
  "user_facts_history (upsertUserFact d t key act now) = user_facts_history d"
  by (simp add: upsertUserFact_def)

lemma upsertUserFact_rows:
  assumes "key \<noteq> []"
  shows "(\<forall>r \<in> set (user_facts (upsertUserFact d t key act now)).
            uf_fact_key r = key \<longrightarrow> uf_fact r = t \<and> uf_is_active r = act) \<and>
         (\<exists>r \<in> set (user_facts (upsertUserFact d t key act now)). uf_fact_key r = key) \<and>
         user_facts_history (upsertUserFact d t key act now) = user_facts_history d"
  using upsertUserFact_all[OF assms] upsertUserFact_ex[OF assms] by auto

lemma getActive_after_upsert:
  assumes "key \<noteq> []"
  shows "getActiveUserFactByKey (upsertUserFact d txt key True now) key = Some txt"
proof -
  from upsertUserFact_rows[OF assms, of d _ True "now"] obtain r where
    r: "r \<in> set (user_facts (upsertUserFact d txt key True now))" "uf_fact_key r = key"
    and all: "\<forall>r \<in> set (user_facts (upsertUserFact d txt key True now)).
            uf_fact_key r = key \<longrightarrow> uf_fact r = txt \<and> uf_is_active r = True"
    by blast
  from r all have "uf_fact_key r = key \<and> uf_is_active r" by auto
  from find_exists[OF r(1), of "\<lambda>r. uf_fact_key r = key \<and> uf_is_active r", OF this]
  obtain y where y: "find (\<lambda>r. uf_fact_key r = key \<and> uf_is_active r)
      (user_facts (upsertUserFact d txt key True now)) = Some y" by blast
  from find_SomeD[OF y] all have "uf_fact y = txt" by auto
  with y assms show ?thesis by (simp add: getActiveUserFactByKey_def)
qed

lemma getActiveUserFactByKey_cong:
  "user_facts d1 = user_facts d2 \<Longrightarrow> getActiveUserFactByKey d1 k = getActiveUserFactByKey d2 k"
  by (simp add: getActiveUserFactByKey_def)

lemma nextVersion_fresh:
  "\<forall>h \<in> set (user_facts_history d). fh_fact_key h \<noteq> key \<Longrightarrow> nextUserFactVersion d key = 1"
proof -
  assume "\<forall>h \<in> set (user_facts_history d). fh_fact_key h \<noteq> key"
  then have "filter (\<lambda>h. fh_fact_key h = key) (user_facts_history d) = []"
    by (simp add: filter_empty_conv)
  then show ?thesis by (simp add: nextUserFactVersion_def)
qed

lemma nextVersion_after_one:
  assumes "\<forall>h \<in> set hs. fh_fact_key h \<noteq> key" "fh_fact_key h1 = key" "key \<noteq> []"
    "user_facts_history d = hs @ [h1]"
  shows "nextUserFactVersion d key = fh_version h1 + 1"
proof -
  from assms(1) have "filter (\<lambda>h. fh_fact_key h = key) hs = []"
    by (simp add: filter_empty_conv)
  with assms show ?thesis by (simp add: nextUserFactVersion_def)
qed


subsection \<open>Evaluation rules for the fact engine\<close>

lemmas triple_defs =
  ExtractFactTriple_def parseChinesePossessiveIs_def parseChineseAttributeIs_def
  parseChineseDirect_def parseEnglish_def englishDirect_def englishPossessive_def
  finalizeTriple_def canonicalRelationKey_def slotAttrs_def SlotKey_def emptyTriple_def
  normalizeFactKey_def deriveFactKeyFromSubject_def extractFactSubject_def

lemmas store_defs =
  withTx_def nextRowId_def nextAutoId_def getActiveUserFactByKey_def getActiveUserFactBySlotKey_def
  nextUserFactVersion_def appendUserFactHistory_def insertUserFactConflict_def
  createUserFactConflict_def upsertUserFact_def touchRow_def outcome_def recordConflict_def
  proposeRememberFactWith_def ProposeRememberFact_def retractFactTx_def RetractFact_def
  summaryId_def upsertSummary_def hasEmbedding_def deleteEmbedding_def upsertEmbedding_def
  embedQueryText_def upsertEmbeddingFromText_def syncFactToSearch_def removeFactFromSearch_def
  getFactConflictByID_def resolveReplaceTx_def ResolveFactConflictReplace_def itoa64_def

lemmas text_defs =
  factLiuNa_def factWangNa_def factMailA_def factMailB_def keyLiuNa_def keyWangNa_def
  keyMailbox_def

lemmas fixture_defs =
  noEmbedding_def clock0_def emptyDB_def rowLiuNa_def dbLiuNa_def rowMailboxLiuNa_def
  rowWangNa_def

lemma fixture_keys:
  "deriveFactKeyFromSubject factWangNa = keyWangNa"
  "deriveFactKeyFromSubject factLiuNa = keyLiuNa"
  "deriveFactKeyFromSubject factMailA = keyMailbox"
  "deriveFactKeyFromSubject factMailB = keyMailbox"
  by (simp_all add: text_defs triple_defs str_defs)

lemma fixture_slots:
  "SlotKey (ExtractFactTriple factWangNa) = slotNanaName"
  "SlotKey (ExtractFactTriple factLiuNa) = slotNanaName"
  "SlotKey (ExtractFactTriple factMailA) = slotMyEmail"
  "SlotKey (ExtractFactTriple factMailB) = slotMyEmail"
  by (simp_all add: text_defs triple_defs str_defs Let_def slotNanaName_def slotMyEmail_def)

lemma fixture_trims:
  "TrimSpace factWangNa = factWangNa" "TrimSpace factLiuNa = factLiuNa"
  "TrimSpace factMailA = factMailA" "TrimSpace factMailB = factMailB"
  by (simp_all add: text_defs str_defs)

lemma fixture_distinct:
  "factWangNa \<noteq> []" "factLiuNa \<noteq> []" "factMailA \<noteq> []" "factMailB \<noteq> []"
  "factWangNa \<noteq> factLiuNa" "factLiuNa \<noteq> factWangNa"
  "factMailA \<noteq> factMailB" "factMailB \<noteq> factMailA"
  "keyWangNa \<noteq> []" "keyLiuNa \<noteq> []" "keyMailbox \<noteq> []"
  "keyWangNa \<noteq> keyLiuNa" "keyLiuNa \<noteq> keyWangNa"
  "keyWangNa \<noteq> keyMailbox" "keyMailbox \<noteq> keyWangNa"
  "keyLiuNa \<noteq> keyMailbox" "keyMailbox \<noteq> keyLiuNa"
  "slotNanaName \<noteq> []" "slotMyEmail \<noteq> []"
  "slotNanaName \<noteq> slotMyEmail" "slotMyEmail \<noteq> slotNanaName"
  by (simp_all add: text_defs S_def slotNanaName_def slotMyEmail_def)

lemma status_distinct:
  "S ''remembered'' \<noteq> S ''conflict''" "S ''conflict'' \<noteq> S ''remembered''"
  "S ''noop'' \<noteq> S ''remembered''" "S ''noop'' \<noteq> S ''conflict''"
  "S ''remembered'' \<noteq> []" "S ''fact'' \<noteq> []" "S ''remember'' \<noteq> []"
  "S ''accepted'' \<noteq> S ''pending''" "S ''forget'' \<noteq> []"
  by (simp_all add: S_def)

lemma dbTwoOccupants_user_facts: "user_facts dbTwoOccupants = [rowWangNa, rowMailboxLiuNa]"
  by (simp add: dbTwoOccupants_def fixture_defs store_defs Let_def
        fixture_keys fixture_slots fixture_trims fixture_distinct status_distinct)

subsection \<open>Slot conflicts\<close>

text \<open>
  Claim C1, as the code has it. The state holds an active user fact \<open>e\<close> with a non-empty
  fact key whose triple yields a non-empty slot key; \<open>e\<close> is the only active fact in that
  slot, and no active fact is stored under the proposed fact's own fact key. Then
  \<open>ProposeRememberFact\<close> of a fact whose trimmed text differs from that of \<open>e\<close> and whose
  triple yields the same slot key returns \<open>conflict\<close> with the key and text of \<open>e\<close>, leaves
  \<open>user_facts\<close> as it was, has a conflict-status row for that key and the trimmed proposal
  (the one found, or one new row), and appends one history row with status \<open>conflict\<close>
  under the key of \<open>e\<close>.
\<close>

theorem C1_slot_conflict_keeps_active_truth:
  assumes e: "e \<in> set (user_facts d)" "uf_is_active e" "uf_fact_key e \<noteq> []"
    and slot: "SlotKey (ExtractFactTriple (uf_fact e)) \<noteq> []"
    and differ: "TrimSpace p \<noteq> TrimSpace (uf_fact e)"
    and same: "SlotKey (ExtractFactTriple p) = SlotKey (ExtractFactTriple (uf_fact e))"
    and nokey: "\<forall>r \<in> set (user_facts d). uf_is_active r \<longrightarrow>
                  uf_fact_key r \<noteq> deriveFactKeyFromSubject p"
    and only: "\<forall>r \<in> set (user_facts d).
                  uf_is_active r \<and> SlotKey (ExtractFactTriple (uf_fact r)) =
                    SlotKey (ExtractFactTriple (uf_fact e))
                  \<longrightarrow> uf_fact_key r = uf_fact_key e \<and> uf_fact r = uf_fact e"
  shows "\<exists>out d' c h.
     ProposeRememberFact embedSvc now d p sourceType sourceKey when = (Inr out, d') \<and>
     Status out = S ''conflict'' \<and> FactKey out = uf_fact_key e \<and> Existing out = uf_fact e \<and>
     ConflictID out = fc_id c \<and>
     user_facts d' = user_facts d \<and>
     c \<in> set (user_fact_conflicts d') \<and> fc_status c = S ''conflict'' \<and>
     fc_fact_key c = uf_fact_key e \<and> fc_proposed_fact c = TrimSpace p \<and>
     (user_fact_conflicts d' = user_fact_conflicts d \<or>
      user_fact_conflicts d' = user_fact_conflicts d @ [c]) \<and>
     user_facts_history d' = user_facts_history d @ [h] \<and>
     fh_status h = S ''conflict'' \<and> fh_fact_key h = uf_fact_key e \<and> fh_fact h = TrimSpace p"
proof -
  have pne: "TrimSpace p \<noteq> []" using slot same SlotKey_nonempty_text[of p] by simp
  have ene: "uf_fact e \<noteq> []" using SlotKey_nonempty_text[OF slot] by auto
  note step = propose_slot_conflict[OF e slot differ same nokey only, of sourceType sourceKey "when"]
  from recordConflict_props[OF e(3) ene pne, of d
      "if sourceType = [] then S ''remember'' else sourceType"
      "if sourceKey = [] then ymd when else sourceKey" "when"]
  obtain out d2 c h where r:
    "recordConflict d (uf_fact_key e) (uf_fact e) (TrimSpace p)
       (if sourceType = [] then S ''remember'' else sourceType)
       (if sourceKey = [] then ymd when else sourceKey) when = (out, d2)"
    "Status out = S ''conflict''" "FactKey out = uf_fact_key e" "Existing out = uf_fact e"
    "ConflictID out = fc_id c" "user_facts d2 = user_facts d"
    "c \<in> set (user_fact_conflicts d2)" "fc_status c = S ''conflict''"
    "fc_fact_key c = uf_fact_key e" "fc_proposed_fact c = TrimSpace p"
    "user_fact_conflicts d2 = user_fact_conflicts d \<or>
      user_fact_conflicts d2 = user_fact_conflicts d @ [c]"
    "user_facts_history d2 = user_facts_history d @ [h]"
    "fh_status h = S ''conflict''" "fh_fact_key h = uf_fact_key e" "fh_fact h = TrimSpace p"
    by blast
  have neq: "S ''conflict'' \<noteq> S ''remembered''" by (simp add: S_def)
  have "ProposeRememberFact embedSvc now d p sourceType sourceKey when = (Inr out, d2)"
    using pne step r(1) r(2) neq by (simp add: ProposeRememberFact_def Let_def withTx_def)
  with r show ?thesis by blast
qed


text \<open>
  The theorem on the scenario of the spec: \<open>factLiuNa\<close> is the only active fact, and
  \<open>factWangNa\<close> is proposed.
\<close>

theorem C1_slot_conflict_witness:
  "rowLiuNa \<in> set (user_facts dbLiuNa) \<and> uf_is_active rowLiuNa \<and>
   SlotKey (ExtractFactTriple (uf_fact rowLiuNa)) \<noteq> [] \<and>
   SlotKey (ExtractFactTriple factWangNa) = SlotKey (ExtractFactTriple (uf_fact rowLiuNa)) \<and>
   (\<exists>out d' h.
      ProposeRememberFact noEmbedding clock0 dbLiuNa factWangNa [] [] clock0 = (Inr out, d') \<and>
      Status out = S ''conflict'' \<and> FactKey out = keyLiuNa \<and>
      user_facts d' = [rowLiuNa] \<and> user_facts_history d' = [h] \<and>
      fh_status h = S ''conflict'' \<and> fh_fact_key h = keyLiuNa)"
proof -
  have h1: "rowLiuNa \<in> set (user_facts dbLiuNa)" by (simp add: dbLiuNa_def emptyDB_def)
  have h2: "uf_is_active rowLiuNa" by (simp add: rowLiuNa_def)
  have h3: "uf_fact_key rowLiuNa \<noteq> []" by (simp add: rowLiuNa_def fixture_distinct)
  have h4: "SlotKey (ExtractFactTriple (uf_fact rowLiuNa)) \<noteq> []"
    by (simp add: rowLiuNa_def fixture_slots fixture_distinct)
  have h5: "TrimSpace factWangNa \<noteq> TrimSpace (uf_fact rowLiuNa)"
    by (simp add: rowLiuNa_def fixture_trims fixture_distinct)
  have h6: "SlotKey (ExtractFactTriple factWangNa) = SlotKey (ExtractFactTriple (uf_fact rowLiuNa))"
    by (simp add: rowLiuNa_def fixture_slots)
  have h7: "\<forall>r \<in> set (user_facts dbLiuNa). uf_is_active r \<longrightarrow>
      uf_fact_key r \<noteq> deriveFactKeyFromSubject factWangNa"
    by (simp add: dbLiuNa_def emptyDB_def rowLiuNa_def fixture_keys fixture_distinct)
  have h8: "\<forall>r \<in> set (user_facts dbLiuNa).
      uf_is_active r \<and> SlotKey (ExtractFactTriple (uf_fact r)) =
        SlotKey (ExtractFactTriple (uf_fact rowLiuNa))
      \<longrightarrow> uf_fact_key r = uf_fact_key rowLiuNa \<and> uf_fact r = uf_fact rowLiuNa"
    by (simp add: dbLiuNa_def emptyDB_def)
  from C1_slot_conflict_keeps_active_truth [OF h1 h2 h3 h4 h5 h6 h7 h8,
      of noEmbedding clock0 "[]" "[]" clock0]
  obtain out d' c h where
    "ProposeRememberFact noEmbedding clock0 dbLiuNa factWangNa [] [] clock0 = (Inr out, d')"
    "Status out = S ''conflict''" "FactKey out = uf_fact_key rowLiuNa"
    "user_facts d' = user_facts dbLiuNa"
    "user_facts_history d' = user_facts_history dbLiuNa @ [h]"
    "fh_status h = S ''conflict''" "fh_fact_key h = uf_fact_key rowLiuNa"
    by blast
  then have "\<exists>out d' h.
      ProposeRememberFact noEmbedding clock0 dbLiuNa factWangNa [] [] clock0 = (Inr out, d') \<and>
      Status out = S ''conflict'' \<and> FactKey out = keyLiuNa \<and>
      user_facts d' = [rowLiuNa] \<and> user_facts_history d' = [h] \<and>
      fh_status h = S ''conflict'' \<and> fh_fact_key h = keyLiuNa"
    by (intro exI[of _ out] exI[of _ d'] exI[of _ h]) (simp add: dbLiuNa_def emptyDB_def rowLiuNa_def)
  with h1 h2 h4 h6 show ?thesis by blast
qed

text \<open>
  The claim as stated, for every state. In \<open>dbTwoOccupants\<close> the active fact
  \<open>rowMailboxLiuNa\<close> has a non-empty slot key; \<open>factWangNa\<close> differs from it in text and in
  derived fact key and has the same slot key; yet the proposal returns \<open>noop\<close>, because
  the exact-key check comes first and finds the active row stored under the proposal's
  own key.
\<close>

theorem C1_exact_key_first_counterexample:
  "rowMailboxLiuNa \<in> set (user_facts dbTwoOccupants) \<and> uf_is_active rowMailboxLiuNa \<and>
   SlotKey (ExtractFactTriple (uf_fact rowMailboxLiuNa)) \<noteq> [] \<and>
   TrimSpace factWangNa \<noteq> TrimSpace (uf_fact rowMailboxLiuNa) \<and>
   deriveFactKeyFromSubject factWangNa \<noteq> uf_fact_key rowMailboxLiuNa \<and>
   SlotKey (ExtractFactTriple factWangNa) = SlotKey (ExtractFactTriple (uf_fact rowMailboxLiuNa)) \<and>
   fst (ProposeRememberFact noEmbedding clock0 dbTwoOccupants factWangNa [] [] clock0)
     = Inr (outcome (S ''noop'') keyWangNa 0 []) \<and>
   Status (outcome (S ''noop'') keyWangNa 0 []) \<noteq> S ''conflict''"
  by (simp add: dbTwoOccupants_user_facts rowMailboxLiuNa_def rowWangNa_def
        fixture_keys fixture_slots fixture_trims fixture_distinct status_distinct
        ProposeRememberFact_def proposeRememberFactWith_def withTx_def
        getActiveUserFactByKey_def outcome_def Let_def)

subsection \<open>Remember, then forget\<close>

text \<open>
  Claim C2, as the code has it. The fact \<open>f\<close> is not blank; no active user fact is stored
  under \<open>factKey(f)\<close>; no active user fact occupies the slot of \<open>f\<close> (when its triple
  yields one); the history has no row for \<open>factKey(f)\<close>. Then \<open>ProposeRememberFact\<close>
  returns \<open>remembered\<close>, \<open>RetractFact\<close> succeeds, no row of \<open>user_facts\<close> under
  \<open>factKey(f)\<close> is active afterwards, and the history has grown by exactly two rows for
  that key: \<open>active\<close> with version 1, then \<open>forgotten\<close> with version 2.
\<close>

theorem C2_remember_then_forget:
  assumes ne: "TrimSpace f \<noteq> []"
    and nokey: "\<forall>r \<in> set (user_facts d). uf_is_active r \<longrightarrow>
                  uf_fact_key r \<noteq> deriveFactKeyFromSubject f"
    and noslot: "\<forall>r \<in> set (user_facts d). uf_is_active r \<longrightarrow>
                  SlotKey (ExtractFactTriple f) = [] \<or>
                  SlotKey (ExtractFactTriple (uf_fact r)) \<noteq> SlotKey (ExtractFactTriple f)"
    and nohist: "\<forall>h \<in> set (user_facts_history d). fh_fact_key h \<noteq> deriveFactKeyFromSubject f"
  shows "\<exists>out d1 d2 h1 h2.
     ProposeRememberFact embedSvc now d f st1 sk1 when1 = (Inr out, d1) \<and>
     Status out = S ''remembered'' \<and> FactKey out = deriveFactKeyFromSubject f \<and>
     RetractFact d1 f st2 sk2 when2 = (None, d2) \<and>
     (\<forall>r \<in> set (user_facts d2). uf_fact_key r = deriveFactKeyFromSubject f \<longrightarrow> \<not> uf_is_active r) \<and>
     user_facts_history d2 = user_facts_history d @ [h1, h2] \<and>
     fh_fact_key h1 = deriveFactKeyFromSubject f \<and> fh_status h1 = S ''active'' \<and>
     fh_version h1 = 1 \<and> fh_fact h1 = TrimSpace f \<and>
     fh_fact_key h2 = deriveFactKeyFromSubject f \<and> fh_status h2 = S ''forgotten'' \<and>
     fh_version h2 = 2 \<and> fh_fact h2 = TrimSpace f"
proof -
  define k where "k = deriveFactKeyFromSubject f"
  define c where "c = TrimSpace f"
  define srcT where "srcT = (if st1 = [] then S ''remember'' else st1)"
  define srcK where "srcK = (if sk1 = [] then ymd when1 else sk1)"
  define srcT2 where "srcT2 = (if st2 = [] then S ''forget'' else st2)"
  define srcK2 where "srcK2 = (if sk2 = [] then ymd when2 else sk2)"
  have kne: "k \<noteq> []" unfolding k_def by (rule deriveFactKeyFromSubject_nonempty[OF ne])
  have cne: "c \<noteq> []" using ne by (simp add: c_def)
  have kc: "deriveFactKeyFromSubject c = k" by (simp add: c_def k_def)
  have tc: "TrimSpace c = c" by (simp add: c_def)
  have sc: "SlotKey (ExtractFactTriple c) = SlotKey (ExtractFactTriple f)" by (simp add: c_def)
  have bykey: "getActiveUserFactByKey d k = None"
    using nokey kne by (auto simp: getActiveUserFactByKey_def find_None_iff2 k_def)
  have byslot: "(if SlotKey (ExtractFactTriple f) \<noteq> []
       then getActiveUserFactBySlotKey d (SlotKey (ExtractFactTriple f)) else None) = None"
    using noslot by (auto simp: getActiveUserFactBySlotKey_def find_None_iff2)
  define u1 where "u1 = upsertUserFact d c k True when1"
  define h1 where "h1 = historyRow u1 k c (S ''active'') srcT srcK when1"
  define t1 where "t1 = u1\<lparr>user_facts_history := user_facts_history u1 @ [h1]\<rparr>"
  have u1h: "user_facts_history u1 = user_facts_history d"
    using upsertUserFact_rows[OF kne, of d c True when1] by (simp add: u1_def)
  have v1: "fh_version h1 = 1"
    using nextVersion_fresh[of u1 k] nohist u1h by (simp add: h1_def k_def)
  have step1: "proposeRememberFactWith d c st1 sk1 when1 = (outcome (S ''remembered'') k 0 [], t1)"
    using cne kne bykey byslot appendUserFactHistory_append[OF kne cne, of "S ''active''" u1 srcT srcK when1]
    by (simp add: proposeRememberFactWith_def Let_def kc tc sc t1_def h1_def u1_def srcT_def srcK_def)
  define d1 where "d1 = syncFactToSearch embedSvc t1 now k c st1"
  have p1: "ProposeRememberFact embedSvc now d f st1 sk1 when1 = (Inr (outcome (S ''remembered'') k 0 []), d1)"
    using cne step1
    by (simp add: ProposeRememberFact_def Let_def withTx_def c_def[symmetric] d1_def outcome_def)
  have d1f: "user_facts d1 = user_facts u1" "user_facts_history d1 = user_facts_history d @ [h1]"
    using syncFactToSearch_frame[of embedSvc t1 now k c st1] u1h by (simp_all add: d1_def t1_def)
  have act1: "getActiveUserFactByKey d1 k = Some c"
    using getActive_after_upsert[OF kne, of d c when1] getActiveUserFactByKey_cong[OF d1f(1), of k]
    by (simp add: u1_def)
  define u2 where "u2 = upsertUserFact d1 c k False when2"
  define h2 where "h2 = historyRow u2 k c (S ''forgotten'') srcT2 srcK2 when2"
  define t2 where "t2 = u2\<lparr>user_facts_history := user_facts_history u2 @ [h2]\<rparr>"
  have u2h: "user_facts_history u2 = user_facts_history d @ [h1]"
    using upsertUserFact_rows[OF kne, of d1 c False when2] d1f by (simp add: u2_def)
  have v2: "fh_version h2 = 2"
    using nextVersion_after_one[of "user_facts_history d" k h1 u2] nohist kne u2h v1
    by (simp add: h2_def k_def h1_def)
  have step2: "retractFactTx d1 c srcT2 srcK2 when2 = (k, t2)"
    using kne cne act1 appendUserFactHistory_append[OF kne cne, of "S ''forgotten''" u2 srcT2 srcK2 when2]
    by (simp add: retractFactTx_def Let_def kc t2_def h2_def u2_def)
  define d2 where "d2 = removeFactFromSearch t2 k (S ''forgotten'')"
  have p2: "RetractFact d1 f st2 sk2 when2 = (None, d2)"
    using cne kne step2
    by (simp add: RetractFact_def Let_def withTx_def c_def[symmetric] d2_def srcT2_def srcK2_def)
  have d2f: "user_facts d2 = user_facts u2" "user_facts_history d2 = user_facts_history d @ [h1, h2]"
    using removeFactFromSearch_frame[of t2 k "S ''forgotten''"] u2h by (simp_all add: d2_def t2_def)
  have inactive: "\<forall>r \<in> set (user_facts d2). uf_fact_key r = k \<longrightarrow> \<not> uf_is_active r"
    using upsertUserFact_rows[OF kne, of d1 c False when2] d2f(1) by (simp add: u2_def)
  show ?thesis
    apply (rule exI[of _ "outcome (S ''remembered'') k 0 []"])
    apply (rule exI[of _ d1])
    apply (rule exI[of _ d2])
    apply (rule exI[of _ h1])
    apply (rule exI[of _ h2])
    using p1 p2 inactive d2f(2) v1 v2
    by (simp add: k_def[symmetric] c_def[symmetric] outcome_def h1_def h2_def)
qed


text \<open>The theorem on the empty database with the fact \<open>factWangNa\<close>.\<close>

theorem C2_remember_then_forget_witness:
  "TrimSpace factWangNa \<noteq> [] \<and>
   (\<exists>out d1 d2.
      ProposeRememberFact noEmbedding clock0 emptyDB factWangNa [] [] clock0 = (Inr out, d1) \<and>
      RetractFact d1 factWangNa [] [] clock0 = (None, d2) \<and>
      map fh_status (user_facts_history d2) = [S ''active'', S ''forgotten''] \<and>
      map fh_version (user_facts_history d2) = [1, 2] \<and>
      map fh_fact_key (user_facts_history d2) = [keyWangNa, keyWangNa])"
proof -
  have h1: "TrimSpace factWangNa \<noteq> []" by (simp add: fixture_trims fixture_distinct)
  have h2: "\<forall>r \<in> set (user_facts emptyDB). uf_is_active r \<longrightarrow>
      uf_fact_key r \<noteq> deriveFactKeyFromSubject factWangNa" by (simp add: emptyDB_def)
  have h3: "\<forall>r \<in> set (user_facts emptyDB). uf_is_active r \<longrightarrow>
      SlotKey (ExtractFactTriple factWangNa) = [] \<or>
      SlotKey (ExtractFactTriple (uf_fact r)) \<noteq> SlotKey (ExtractFactTriple factWangNa)"
    by (simp add: emptyDB_def)
  have h4: "\<forall>h \<in> set (user_facts_history emptyDB).
      fh_fact_key h \<noteq> deriveFactKeyFromSubject factWangNa" by (simp add: emptyDB_def)
  from C2_remember_then_forget [OF h1 h2 h3 h4, of noEmbedding clock0 "[]" "[]" clock0 "[]" "[]" clock0]
  obtain out d1 d2 h1' h2' where
    "ProposeRememberFact noEmbedding clock0 emptyDB factWangNa [] [] clock0 = (Inr out, d1)"
    "RetractFact d1 factWangNa [] [] clock0 = (None, d2)"
    "user_facts_history d2 = user_facts_history emptyDB @ [h1', h2']"
    "fh_fact_key h1' = deriveFactKeyFromSubject factWangNa" "fh_status h1' = S ''active''"
    "fh_version h1' = 1"
    "fh_fact_key h2' = deriveFactKeyFromSubject factWangNa" "fh_status h2' = S ''forgotten''"
    "fh_version h2' = 2"
    by blast
  then have "\<exists>out d1 d2.
      ProposeRememberFact noEmbedding clock0 emptyDB factWangNa [] [] clock0 = (Inr out, d1) \<and>
      RetractFact d1 factWangNa [] [] clock0 = (None, d2) \<and>
      map fh_status (user_facts_history d2) = [S ''active'', S ''forgotten''] \<and>
      map fh_version (user_facts_history d2) = [1, 2] \<and>
      map fh_fact_key (user_facts_history d2) = [keyWangNa, keyWangNa]"
    by (intro exI[of _ out] exI[of _ d1] exI[of _ d2]) (simp add: emptyDB_def fixture_keys)
  with h1 show ?thesis by blast
qed

text \<open>
  The claim as stated fails in two ways. For the empty fact text on the empty database
  both calls return at once and no history row is written. And on \<open>dbLiuNa\<close>, where no
  active fact and no history row has the key of \<open>factWangNa\<close>, remembering \<open>factWangNa\<close> is
  a slot conflict and forgetting it retracts \<open>factLiuNa\<close> through the slot fallback: the
  two history rows are \<open>conflict\<close> and \<open>forgotten\<close>, both under the key of \<open>factLiuNa\<close>.
\<close>

theorem C2_blank_fact_and_slot_counterexample:
  "user_facts emptyDB = [] \<and> user_facts_history emptyDB = [] \<and>
   user_facts_history
     (snd (RetractFact (snd (ProposeRememberFact noEmbedding clock0 emptyDB [] [] [] clock0))
        [] [] [] clock0)) = [] \<and>
   map uf_fact_key (user_facts dbLiuNa) = [keyLiuNa] \<and>
   deriveFactKeyFromSubject factWangNa \<noteq> keyLiuNa \<and> user_facts_history dbLiuNa = [] \<and>
   map fh_fact_key
     (user_facts_history
        (snd (RetractFact
                (snd (ProposeRememberFact noEmbedding clock0 dbLiuNa factWangNa [] [] clock0))
                factWangNa [] [] clock0)))
     = [keyLiuNa, keyLiuNa] \<and>
   map fh_status
     (user_facts_history
        (snd (RetractFact
                (snd (ProposeRememberFact noEmbedding clock0 dbLiuNa factWangNa [] [] clock0))
                factWangNa [] [] clock0)))
     = [S ''conflict'', S ''forgotten'']"
  by (simp add: fixture_defs store_defs Let_def
        fixture_keys fixture_slots fixture_trims fixture_distinct status_distinct)

subsection \<open>Pending facts that are not pending\<close>

text \<open>
  Claim C10. When no row of \<open>pending_facts\<close> with the id has status \<open>pending\<close> (there is
  no such row, or its status is another one), \<open>RememberPendingFact\<close> and
  \<open>RejectPendingFact\<close> return the error "pending fact not found" and the database is the
  one before the call.
\<close>

theorem C10_pending_not_found_leaves_database:
  assumes "\<forall>p \<in> set (pending_facts d). pf_id p = i \<longrightarrow> pf_status p \<noteq> S ''pending''"
  shows "RememberPendingFact embedSvc nowTime d i = (Inl PendingFactNotFound, d) \<and>
         RejectPendingFact nowTime d i = (Some PendingFactNotFound, d)"
proof (cases "getPendingFactByID d i")
  case None
  then show ?thesis
    by (simp add: RememberPendingFact_def RejectPendingFact_def withTx_def
          rememberPendingTx_def rejectPendingTx_def)
next
  case (Some pf)
  then have "pf \<in> set (pending_facts d) \<and> pf_id pf = i"
    using find_SomeD[of "\<lambda>p. pf_id p = i" "pending_facts d" pf]
    by (simp add: getPendingFactByID_def)
  with assms have "pf_status pf \<noteq> S ''pending''" by blast
  with Some show ?thesis
    by (simp add: RememberPendingFact_def RejectPendingFact_def withTx_def
          rememberPendingTx_def rejectPendingTx_def)
qed

text \<open>The theorem for the accepted row with id 1 and for the id 2, which no row has.\<close>

theorem C10_pending_not_found_witness:
  "RememberPendingFact noEmbedding clock0 dbPendingAccepted 1 = (Inl PendingFactNotFound, dbPendingAccepted) \<and>
   RejectPendingFact clock0 dbPendingAccepted 1 = (Some PendingFactNotFound, dbPendingAccepted) \<and>
   RememberPendingFact noEmbedding clock0 dbPendingAccepted 2 = (Inl PendingFactNotFound, dbPendingAccepted) \<and>
   RejectPendingFact clock0 dbPendingAccepted 2 = (Some PendingFactNotFound, dbPendingAccepted)"
proof -
  have a: "\<forall>p \<in> set (pending_facts dbPendingAccepted). pf_id p = 1 \<longrightarrow> pf_status p \<noteq> S ''pending''"
    by (simp add: dbPendingAccepted_def emptyDB_def status_distinct)
  have b: "\<forall>p \<in> set (pending_facts dbPendingAccepted). pf_id p = 2 \<longrightarrow> pf_status p \<noteq> S ''pending''"
    by (simp add: dbPendingAccepted_def emptyDB_def)
  from C10_pending_not_found_leaves_database [OF a, of noEmbedding clock0]
       C10_pending_not_found_leaves_database [OF b, of noEmbedding clock0]
  show ?thesis by simp
qed

subsection \<open>Sorting\<close>

lemma set_insertBy [simp]: "set (insertBy lt x ys) = insert x (set ys)"
  by (induction ys) auto

lemma length_insertBy [simp]: "length (insertBy lt x ys) = Suc (length ys)"
  by (induction ys) auto

lemma set_sortSliceStable [simp]: "set (sortSliceStable lt xs) = set xs"
  by (induction xs) (simp_all add: sortSliceStable_def)

lemma length_sortSliceStable [simp]: "length (sortSliceStable lt xs) = length xs"
  by (induction xs) (simp_all add: sortSliceStable_def)

subsection \<open>The block of remembered facts\<close>








subsection \<open>Retrieval\<close>

lemma scanRows_props:
  "h \<in> set (scanRows ext cfg qv qn rows) \<Longrightarrow>
     Score h = EmbScore h \<and> \<not> isNaN (EmbScore h) \<and> \<not> isInf (EmbScore h) \<and>
     \<not> flt (EmbScore h) (SearchMinScore cfg)"
proof (induction rows)
  case Nil
  then show ?case by simp
next
  case (Cons row rows)
  obtain s e where row: "row = (s, e)" by (cases row)
  show ?case
  proof (cases "h \<in> set (scanRows ext cfg qv qn rows)")
    case True
    then show ?thesis by (rule Cons.IH)
  next
    case False
    with Cons.prems row show ?thesis
      by (auto simp: Let_def split: if_splits option.splits)
  qed
qed

lemma flt_total: "x \<noteq> NaN \<Longrightarrow> y \<noteq> NaN \<Longrightarrow> \<not> flt x y \<Longrightarrow> fge x y"
  by (cases x; cases y) (auto simp: fge_def fle_def feq_def)

lemma set_zip_update:
  "h \<in> set (map (\<lambda>(h, sc). h\<lparr>Score := sc\<rparr>) (zip hs scores)) \<Longrightarrow>
     \<exists>h0 \<in> set hs. EmbScore h = EmbScore h0"
  by (auto dest: set_zip_leftD)

lemma rankHits_props:
  assumes "rankHits rerankSvc cfg query hits0 = Inr hs" and "h \<in> set hs"
  shows "\<exists>h0 \<in> set hits0. EmbScore h = EmbScore h0 \<and> (\<not> EnableRerank cfg \<longrightarrow> h = h0)"
proof -
  define hits1 where "hits1 = sortSliceStable (\<lambda>a b. fgt (EmbScore a) (EmbScore b)) hits0"
  define topN0 where "topN0 = (if RerankTopN cfg \<le> 0 then SearchTopK cfg else RerankTopN cfg)"
  define topN where "topN = (if topN0 < SearchTopK cfg then SearchTopK cfg else topN0)"
  define hits2 where "hits2 = (if int (length hits1) > topN then take (nat topN) hits1 else hits1)"
  define hits3 where "hits3 =
                 (if shouldRerank hits2 cfg then
                    (case rerankTexts rerankSvc cfg query (map Text hits2) of
                       Some scores \<Rightarrow>
                         if length scores = length hits2 then
                           sortSliceStable (\<lambda>a b. fgt (Score a) (Score b))
                             (map (\<lambda>(h, sc). h\<lparr>Score := sc\<rparr>) (zip hits2 scores))
                         else hits2
                     | None \<Rightarrow> hits2)
                  else hits2)"
  have s2: "set hits2 \<subseteq> set hits0"
    using set_take_subset[of "nat topN" hits1] by (auto simp: hits2_def hits1_def)
  have s3: "x \<in> set hits3 \<Longrightarrow>
      \<exists>h0 \<in> set hits2. EmbScore x = EmbScore h0 \<and> (\<not> EnableRerank cfg \<longrightarrow> x = h0)" for x
  proof (cases "shouldRerank hits2 cfg")
    case False
    assume "x \<in> set hits3"
    with False show ?thesis by (auto simp: hits3_def)
  next
    case True
    assume x: "x \<in> set hits3"
    from True have en: "EnableRerank cfg" by (auto simp: shouldRerank_def split: if_splits)
    from x True have "x \<in> set hits2 \<or>
       (\<exists>scores. x \<in> set (map (\<lambda>(h, sc). h\<lparr>Score := sc\<rparr>) (zip hits2 scores)))"
      by (auto simp: hits3_def split: option.splits if_splits)
    then show ?thesis using en set_zip_update by blast
  qed
  have "set hs \<subseteq> set hits3"
    using assms(1) set_take_subset[of "nat (SearchTopK cfg)" hits3]
    unfolding rankHits_def Let_def hits1_def[symmetric] topN0_def[symmetric] topN_def[symmetric]
      hits2_def[symmetric] hits3_def[symmetric]
    by (auto split: if_splits)
  with assms(2) s3 s2 show ?thesis by blast
qed

text \<open>
  Claim C3, as the code has it. The filter of \<open>SearchWithScore\<close> is applied to the
  embedding score: every returned hit has a field \<open>EmbScore\<close> that is neither NaN nor
  infinite and is not less than \<open>cfg.SearchMinScore\<close> (greater than or equal to it when
  that threshold is not NaN). The field \<open>Score\<close> equals \<open>EmbScore\<close> when reranking is
  disabled; a rerank score that replaces it is not filtered.
\<close>

theorem C3_returned_hits_pass_embedding_filter:
  assumes "SearchWithScore embedSvc rerankSvc extractHumanText d cfg query0 = Inr hits"
      and "h \<in> set hits"
  shows "\<not> isNaN (EmbScore h) \<and> \<not> isInf (EmbScore h) \<and>
         \<not> flt (EmbScore h) (SearchMinScore cfg) \<and>
         (\<not> isNaN (SearchMinScore cfg) \<longrightarrow> fge (EmbScore h) (SearchMinScore cfg)) \<and>
         (\<not> EnableRerank cfg \<longrightarrow> Score h = EmbScore h)"
proof -
  from assms obtain qv qn where
    r: "rankHits rerankSvc cfg (TrimSpace query0)
          (scanRows extractHumanText cfg qv qn (joinedRows d)) = Inr hits"
    by (auto simp: SearchWithScore_def Let_def split: if_splits option.splits)
  from rankHits_props[OF r assms(2)] obtain h0 where
    h0: "h0 \<in> set (scanRows extractHumanText cfg qv qn (joinedRows d))"
        "EmbScore h = EmbScore h0" "\<not> EnableRerank cfg \<longrightarrow> h = h0"
    by blast
  from scanRows_props[OF h0(1)] h0(2,3)
  have p: "\<not> isNaN (EmbScore h)" "\<not> isInf (EmbScore h)"
          "\<not> flt (EmbScore h) (SearchMinScore cfg)" "\<not> EnableRerank cfg \<longrightarrow> Score h = EmbScore h"
    by auto
  from p(1,3) have "\<not> isNaN (SearchMinScore cfg) \<longrightarrow> fge (EmbScore h) (SearchMinScore cfg)"
    by (auto simp: isNaN_def intro: flt_total)
  with p show ?thesis by blast
qed

lemmas float_defs = isNaN_def isInf_def fsub_def feq_def fgt_def fle_def fge_def
  sumSquares_def l2norm_def signedInf_def

lemmas search_defs = SearchWithScore_def rankHits_def scanRows.simps joinedRows_def
  shouldRerank_def rerankTexts_def dotProductExactDim_def embedQueryText_def
  sortSliceStable_def

lemma search_example:
  "SearchWithScore embedUnitX rerankLow humanTextNone dbTwoIndexedFacts cfgRerankAlways (S ''q'') =
     Inr [\<lparr>Score = Fin 0.1, EmbScore = Fin 1, Type = S ''fact'', Date = S ''fact:'' @ keyWangNa,
           Text = factWangNa\<rparr>,
          \<lparr>Score = Fin 0.1, EmbScore = Fin 0.8, Type = S ''fact'', Date = S ''fact:'' @ keyMailbox,
           Text = factMailA\<rparr>]"
proof -
  have tr: "TrimSpace factWangNa = factWangNa" "factWangNa \<noteq> []"
           "TrimSpace factMailA = factMailA" "factMailA \<noteq> []"
    by (simp_all add: factWangNa_def factMailA_def str_defs)
  have q: "TrimSpace (S ''q'') = S ''q''" "S ''q'' \<noteq> []"
          "TrimSpace (S ''http://localhost:8090/rerank'') \<noteq> []"
          "ToLower (TrimSpace (S ''always'')) = S ''always''" "S ''always'' \<noteq> []"
          "S ''fact'' \<noteq> []"
    by (simp_all add: str_defs)
  show ?thesis
    by (simp add: search_defs float_defs embedUnitX_def rerankLow_def dbTwoIndexedFacts_def
          cfgRerankAlways_def emptyDB_def Let_def tr q)
qed

text \<open>The theorem on the two indexed facts, with reranking.\<close>

theorem C3_returned_hits_witness:
  "SearchWithScore embedUnitX rerankLow humanTextNone dbTwoIndexedFacts cfgRerankAlways (S ''q'')
     = Inr [hitWangNa, hitMailA] \<and>
   hitMailA \<in> set [hitWangNa, hitMailA] \<and>
   \<not> isNaN (EmbScore hitMailA) \<and> \<not> isInf (EmbScore hitMailA) \<and>
   fge (EmbScore hitMailA) (SearchMinScore cfgRerankAlways)"
proof -
  have a: "SearchWithScore embedUnitX rerankLow humanTextNone dbTwoIndexedFacts cfgRerankAlways
      (S ''q'') = Inr [hitWangNa, hitMailA]"
    by (simp add: search_example hitWangNa_def hitMailA_def)
  have b: "hitMailA \<in> set [hitWangNa, hitMailA]" by simp
  have c: "\<not> isNaN (SearchMinScore cfgRerankAlways)"
    by (simp add: cfgRerankAlways_def isNaN_def)
  from C3_returned_hits_pass_embedding_filter [OF a b] a b c show ?thesis by simp
qed

text \<open>
  The claim as stated, for the field \<open>Score\<close>. Two indexed facts have the embedding scores
  1 and 0.8, both above the threshold 0.5; the rerank mode is \<open>always\<close> and the
  cross-encoder gives 0.1 to each document. Both hits are returned with \<open>Score\<close> 0.1, which
  is less than \<open>SearchMinScore\<close>.
\<close>

theorem C3_rerank_score_below_threshold_counterexample:
  "SearchWithScore embedUnitX rerankLow humanTextNone dbTwoIndexedFacts cfgRerankAlways (S ''q'')
     = Inr [hitWangNa, hitMailA] \<and>
   Score hitWangNa = Fin 0.1 \<and> SearchMinScore cfgRerankAlways = Fin 0.5 \<and>
   flt (Score hitWangNa) (SearchMinScore cfgRerankAlways) \<and>
   \<not> fge (Score hitWangNa) (SearchMinScore cfgRerankAlways)"
proof -
  have "SearchWithScore embedUnitX rerankLow humanTextNone dbTwoIndexedFacts cfgRerankAlways
      (S ''q'') = Inr [hitWangNa, hitMailA]"
    by (simp add: search_example hitWangNa_def hitMailA_def)
  moreover have "Score hitWangNa = Fin 0.1" "SearchMinScore cfgRerankAlways = Fin 0.5"
    by (simp_all add: hitWangNa_def cfgRerankAlways_def)
  ultimately show ?thesis by (simp add: float_defs)
qed

subsection \<open>The drift guard\<close>









subsection \<open>Groups of pending facts\<close>

lemmas group_defs = ListPendingFactGroups_def ListPendingFacts_def sortSliceStable_def
  ensureVec_def getPendingFactEmbedding_def decodeVecBlob_def embedQueryText_def
  cosine_def pendingClusterThreshold_def newGroup_def upsertPendingFactEmbedding_def

text \<open>
  Claim C6 does not hold of the code. The fast path compares the key of an item with the
  key of the representative of each group only. In \<open>dbThreePending\<close> the facts \<open>pendingB\<close>
  and \<open>pendingC\<close> have the same non-empty key. \<open>pendingB\<close> joins the group of \<open>pendingA\<close>,
  whose key is another one, by similarity; \<open>pendingC\<close>, which has no embedding, then
  finds no representative with its key and becomes a group of its own.
\<close>

theorem C6_same_key_in_two_groups:
  "pf_fact_key pendingB = pf_fact_key pendingC \<and> pf_fact_key pendingB \<noteq> [] \<and>
   map Items (fst (ListPendingFactGroups noEmbedding (rfc3339 clock0) dbThreePending 50))
     = [[pendingA, pendingB], [pendingC]]"
proof -
  have k: "keyMailbox \<noteq> keyWangNa" "keyWangNa \<noteq> keyMailbox" "keyWangNa \<noteq> []" "keyMailbox \<noteq> []"
    by (simp_all add: keyMailbox_def keyWangNa_def S_def)
  have f: "factMailA \<noteq> factWangNa" "factWangNa \<noteq> factMailA"
    by (simp_all add: factMailA_def factWangNa_def S_def)
  have s: "S ''pending'' \<noteq> []" by (simp add: S_def)
  have l: "\<not> strLess x x" for x by (induction x) simp_all
  have sel: "pf_id pendingA = 1" "pf_id pendingB = 2" "pf_id pendingC = 3"
    "pf_fact_key pendingA = keyMailbox" "pf_fact_key pendingB = keyWangNa"
    "pf_fact_key pendingC = keyWangNa"
    "pf_confidence pendingA = 0.9" "pf_confidence pendingB = 0.8" "pf_confidence pendingC = 0.7"
    "pf_status pendingA = S ''pending''" "pf_status pendingB = S ''pending''"
    "pf_status pendingC = S ''pending''"
    "pf_created_at pendingA = rfc3339 clock0" "pf_created_at pendingB = rfc3339 clock0"
    "pf_created_at pendingC = rfc3339 clock0"
    "pf_fact pendingA = factMailA" "pf_fact pendingB = factWangNa" "pf_fact pendingC = factWangNa"
    by (simp_all add: pendingA_def pendingB_def pendingC_def)
  show ?thesis
    by (simp add: group_defs float_defs dbThreePending_def emptyDB_def noEmbedding_def Let_def
          sel k f l)
qed

end
